theory Spec2Isabelle
  imports Main "HOL-Library.Sublist"
begin

section \<open>Strings and paths of the Go standard library\<close>

text \<open>
  Go strings are byte sequences; they are modelled as \<open>string\<close>. The three characters of
  the templates that cannot be written inside a literal get names.
\<close>

definition nl :: char where
  "nl = CHR 0x0A"

definition tab :: char where
  "tab = CHR 0x09"

definition dquote :: char where
  "dquote = CHR 0x22"

text \<open>\<open>strings.Join(elems, sep)\<close>: the elements in order, \<open>sep\<close> between neighbours.\<close>

fun strings_Join :: "string list \<Rightarrow> string \<Rightarrow> string" where
  "strings_Join [] sep = []"
| "strings_Join (e # es) sep = e @ concat (map (\<lambda>s. sep @ s) es)"

text \<open>
  \<open>strings.Trim(s, cutset)\<close> removes every leading and every trailing byte that occurs
  in \<open>cutset\<close>.
\<close>

definition strings_Trim :: "string \<Rightarrow> string \<Rightarrow> string" where
  "strings_Trim s cutset =
     rev (dropWhile (\<lambda>c. c \<in> set cutset) (rev (dropWhile (\<lambda>c. c \<in> set cutset) s)))"

text \<open>\<open>strings.Contains(s, substr)\<close>, used to state what a rendered file contains.\<close>

fun strings_Contains :: "string \<Rightarrow> string \<Rightarrow> bool" where
  "strings_Contains [] substr = (substr = [])"
| "strings_Contains (c # cs) substr = (prefix substr (c # cs) \<or> strings_Contains cs substr)"

text \<open>
  \<open>filepath.Base\<close> on Linux: the empty path gives \<open>.\<close>, trailing separators are
  stripped, the part after the last separator is kept, and a path of separators only
  gives \<open>/\<close>.
\<close>

definition filepath_Base :: "string \<Rightarrow> string" where
  "filepath_Base path =
     (if path = [] then ''.''
      else
        let stripped = rev (dropWhile (\<lambda>c. c = CHR ''/'') (rev path));
            lastElem = rev (takeWhile (\<lambda>c. c \<noteq> CHR ''/'') (rev stripped))
        in if lastElem = [] then ''/'' else lastElem)"

text \<open>
  \<open>filepath.Clean\<close> on Linux, by its documented rules: the path is cut at separators,
  empty elements and \<open>.\<close> are dropped, \<open>..\<close> removes the element before it, is dropped
  at the root of a rooted path and is kept at the start of a relative one; an empty
  result is \<open>.\<close>. The stack of kept elements is held in reverse.
\<close>

fun split_sep :: "string \<Rightarrow> string list" where
  "split_sep [] = [[]]"
| "split_sep (c # cs) =
     (if c = CHR ''/'' then [] # split_sep cs
      else (case split_sep cs of
              [] \<Rightarrow> [[c]]
            | e # es \<Rightarrow> (c # e) # es))"

definition clean_step :: "bool \<Rightarrow> string list \<Rightarrow> string \<Rightarrow> string list" where
  "clean_step rooted out e =
     (if e = [] \<or> e = ''.'' then out
      else if e = ''..'' then
        (case out of
           [] \<Rightarrow> if rooted then [] else [''..'']
         | t # ts \<Rightarrow> if t = ''..'' then ''..'' # out else ts)
      else e # out)"

definition filepath_Clean :: "string \<Rightarrow> string" where
  "filepath_Clean path =
     (if path = [] then ''.''
      else
        let rooted = (hd path = CHR ''/'');
            out = rev (foldl (clean_step rooted) [] (split_sep path));
            cleaned = (if rooted then ''/'' else []) @ strings_Join out ''/''
        in if cleaned = [] then ''.'' else cleaned)"

text \<open>
  \<open>filepath.Join\<close>: leading empty elements are skipped, the rest is joined with the
  separator and cleaned; with no non-empty element the result is empty.
\<close>

fun filepath_Join :: "string list \<Rightarrow> string" where
  "filepath_Join [] = []"
| "filepath_Join (e # es) =
     (if e \<noteq> [] then filepath_Clean (strings_Join (e # es) ''/'') else filepath_Join es)"

section \<open>Data model\<close>

text \<open>
  Modelled from the spec: the declaration of \<open>boshsettings.Network\<close> (package settings,
  not among the sources). The fields are the ones the manager and its templates read;
  an absent gateway is the empty string, as for every Go string field.
\<close>

record Network =
  IP :: string
  Netmask :: string
  Gateway :: string
  Default :: "string list"
  DNS :: "string list"
  Mac :: string

text \<open>
  \<open>boshsettings.Networks\<close> is a Go map from network name to \<open>Network\<close>. A \<open>range\<close> loop
  visits a Go map in an order the language leaves open; the list gives the entries in
  the order in which the loop of one call visits them.
\<close>

type_synonym Networks = "(string \<times> Network) list"

text \<open>
  Modelled from the spec: the declaration of \<open>customNetwork\<close> (another file of the
  package, not among the sources): a network enriched with the interface name, the
  computed network and broadcast addresses and a gateway flag. It embeds the \<open>Network\<close>;
  the four added fields are in the order of the positional literal in
  \<open>writeNetworkInterfaces\<close>, under the names the template reads.
\<close>

record customNetwork =
  Network :: Network
  Interface :: string
  NetworkIP :: string
  Broadcast :: string
  HasDefaultGateway :: bool

text \<open>
  The data of the static interfaces template and of the resolver template; their
  declarations are in other files of the package, the fields are the ones the manager
  sets and the templates read (\<open>dnsServers\<close> is the template's \<open>DNSServers\<close>).
\<close>

record networkInterfaceConfigArg =
  Networks :: "customNetwork list"
  HasDNSNameServers :: bool
  DNSServers :: "string list"

record dnsConfigArg =
  dnsServers :: "string list"

text \<open>
  Errors are values. \<open>bosherr.WrapError(err, msg)\<close> keeps the inner error and the
  message of the stage that failed.
\<close>

datatype error = NewError string | WrapError error string

text \<open>
  Modelled from the spec: \<open>Error()\<close> of a wrapped error (package errors, not among the
  sources): the contextual message followed by the message of the inner error.
\<close>

fun error_message :: "error \<Rightarrow> string" where
  "error_message (NewError msg) = msg"
| "error_message (WrapError err msg) = msg @ '': '' @ error_message err"

text \<open>
  The two kinds of address handed to the broadcaster (package ip): an interface whose
  address is resolved when it is broadcast, and an interface with its address.
\<close>

datatype InterfaceAddress =
  ResolvingInterfaceAddress string
| SimpleInterfaceAddress string string

text \<open>
  A goroutine started by a call: it broadcasts the addresses and then, when the caller
  gave a channel, sends one \<open>nil\<close> on it. Channels are named by numbers.
\<close>

datatype goroutine = BroadcastMACAddresses "InterfaceAddress list" "nat option"

datatype log_level = Debug | Info | Error

section \<open>Templates\<close>

text \<open>
  Each \<open>text/template\<close> constant is the function from its data to the rendered text:
  literal text is copied, \<open>{{ . }}\<close> and \<open>{{ .Field }}\<close> print a string as it is,
  \<open>{{ if }}\<close> tests a string for non-emptiness or a bool, \<open>{{ range }}\<close> repeats its
  body for every element in order.
\<close>

definition ubuntuDHCPConfigTemplate :: "string \<Rightarrow> string" where
  "ubuntuDHCPConfigTemplate dot =
     ''# Generated by bosh-agent'' @ [nl] @
     [nl] @
     ''option rfc3442-classless-static-routes code 121 = array of unsigned integer 8;'' @ [nl] @
     [nl] @
     ''send host-name '' @ [dquote] @ ''<hostname>'' @ [dquote] @ '';'' @ [nl] @
     [nl] @
     ''request subnet-mask, broadcast-address, time-offset, routers,'' @ [nl] @
     [tab] @ ''domain-name, domain-name-servers, domain-search, host-name,'' @ [nl] @
     [tab] @ ''netbios-name-servers, netbios-scope, interface-mtu,'' @ [nl] @
     [tab] @ ''rfc3442-classless-static-routes, ntp-servers;'' @ [nl] @
     (if dot \<noteq> [] then [nl] @ ''prepend domain-name-servers '' @ dot @ '';'' else []) @
     [nl]"

definition networkBlock :: "customNetwork \<Rightarrow> string" where
  "networkBlock n =
     [nl] @
     ''auto '' @ Interface n @ [nl] @
     ''iface '' @ Interface n @ '' inet static'' @ [nl] @
     ''    address '' @ IP (Network n) @ [nl] @
     ''    network '' @ NetworkIP n @ [nl] @
     ''    netmask '' @ Netmask (Network n) @ [nl] @
     ''    broadcast '' @ Broadcast n @ [nl] @
     (if HasDefaultGateway n then ''    gateway '' @ Gateway (Network n) else [])"

definition networkInterfacesTemplate :: "networkInterfaceConfigArg \<Rightarrow> string" where
  "networkInterfacesTemplate arg =
     ''# Generated by bosh-agent'' @ [nl] @
     ''auto lo'' @ [nl] @
     ''iface lo inet loopback'' @ [nl] @
     concat (map networkBlock (Networks arg)) @
     [nl] @
     (if HasDNSNameServers arg
      then ''dns-nameservers'' @ concat (map (\<lambda>d. '' '' @ d) (DNSServers arg))
      else [])"

definition ubuntuResolvConfTemplate :: "dnsConfigArg \<Rightarrow> string" where
  "ubuntuResolvConfTemplate arg =
     ''# Generated by bosh-agent'' @ [nl] @
     concat (map (\<lambda>d. ''nameserver '' @ d @ [nl]) (dnsServers arg))"

definition ubuntuDhcpNetworkInterfacesTemplate :: "string list \<Rightarrow> string" where
  "ubuntuDhcpNetworkInterfacesTemplate interfaces =
     ''# Generated by bosh-agent'' @ [nl] @
     ''auto lo'' @ [nl] @
     ''iface lo inet loopback'' @ [nl] @
     concat (map (\<lambda>i. [nl] @ ''auto '' @ i @ [nl] @ ''iface '' @ i @ '' inet dhcp'' @ [nl])
                 interfaces)"

text \<open>
  \<open>t.Execute(buffer, data)\<close> writes into a buffer in memory, and every field and action
  of the four templates exists for the data it is given: no step of the execution can
  fail, so the rendered text is always returned. The callers keep their error branch.
\<close>

definition Execute :: "('a \<Rightarrow> string) \<Rightarrow> 'a \<Rightarrow> error + string" where
  "Execute t data = Inr (t data)"

section \<open>Collaborators and the state of the host\<close>

text \<open>
  The manager works through its collaborators: the file system, the command runner,
  the settings and the address broadcaster. What they answer is a parameter of every
  function of the model; what the manager does to them is recorded in the state.

  The enumeration, the reads of \<open>address\<close> and the tests for \<open>device\<close> go to paths
  that end in \<open>address\<close> and \<open>device\<close>, never to one of the files the manager writes,
  so their answers do not depend on the files in the state.

  \<open>CalculateNetworkAndBroadcast\<close> (package system) and \<open>DefaultNetworkFor\<close> (package
  settings) are not among the sources; both are taken as parameters.
\<close>

record collaborators =
  fs_Glob :: "string \<Rightarrow> error + string list"
  fs_ReadFileString :: "string \<Rightarrow> error + string"
  fs_FileExists :: "string \<Rightarrow> bool"
  fs_ConvergeFailure :: "string \<Rightarrow> error option"
  fs_WriteFailure :: "string \<Rightarrow> error option"
  cmdRunner :: "string \<Rightarrow> string list \<Rightarrow> string \<times> string \<times> int \<times> error option"
  CalculateNetworkAndBroadcast :: "string \<Rightarrow> string \<Rightarrow> error + string \<times> string"
  DefaultNetworkFor :: "Networks \<Rightarrow> string \<Rightarrow> Network \<times> bool"

record host =
  files :: "string \<rightharpoonup> string"
  commands :: "(string \<times> string list) list"
  logs :: "(log_level \<times> string \<times> string) list"
  goroutines :: "goroutine list"

definition ubuntuNetManagerLogTag :: string where
  "ubuntuNetManagerLogTag = ''ubuntuNetManager''"

definition logger :: "log_level \<Rightarrow> string \<Rightarrow> string \<Rightarrow> host \<Rightarrow> host" where
  "logger level tag msg h = h\<lparr>logs := logs h @ [(level, tag, msg)]\<rparr>"

text \<open>\<open>go func() {...}()\<close>: the goroutine is started; the call does not wait for it.\<close>

definition go :: "goroutine \<Rightarrow> host \<Rightarrow> host" where
  "go g h = h\<lparr>goroutines := goroutines h @ [g]\<rparr>"

text \<open>
  \<open>RunCommand(name, args...)\<close>: the command is run (recorded in order) and the runner's
  answer is returned.
\<close>

definition RunCommand ::
  "collaborators \<Rightarrow> string \<Rightarrow> string list \<Rightarrow> host
     \<Rightarrow> (string \<times> string \<times> int \<times> error option) \<times> host" where
  "RunCommand net name args h =
     (cmdRunner net name args, h\<lparr>commands := commands h @ [(name, args)]\<rparr>)"

text \<open>
  Modelled from the spec: \<open>ConvergeFileContents\<close> of the file system (package system,
  not among the sources). It compares the existing content of the file, if any, with
  the new content byte for byte, writes only if they differ, and returns whether it
  wrote; a failure of the storage is an error and nothing is written.
\<close>

definition ConvergeFileContents ::
  "collaborators \<Rightarrow> string \<Rightarrow> string \<Rightarrow> host \<Rightarrow> (error + bool) \<times> host" where
  "ConvergeFileContents net path content h =
     (case fs_ConvergeFailure net path of
        Some err \<Rightarrow> (Inl err, h)
      | None \<Rightarrow>
          if files h path = Some content then (Inr False, h)
          else (Inr True, h\<lparr>files := (files h)(path \<mapsto> content)\<rparr>))"

text \<open>
  Modelled from the spec: \<open>WriteFile\<close> of the file system (package system, not among
  the sources), the unconditional write.
\<close>

definition WriteFile :: "collaborators \<Rightarrow> string \<Rightarrow> string \<Rightarrow> host \<Rightarrow> error option \<times> host" where
  "WriteFile net path content h =
     (case fs_WriteFailure net path of
        Some err \<Rightarrow> (Some err, h)
      | None \<Rightarrow> (None, h\<lparr>files := (files h)(path \<mapsto> content)\<rparr>))"

section \<open>Interface inventory\<close>

text \<open>
  \<open>detectMacAddresses\<close> returns the map and the error side by side, as the Go function
  does. A key that is not in a Go map reads as the empty string.
\<close>

fun detectMacAddresses_range ::
  "collaborators \<Rightarrow> string list \<Rightarrow> (string \<rightharpoonup> string) \<Rightarrow> (string \<rightharpoonup> string) \<times> error option" where
  "detectMacAddresses_range net [] addresses = (addresses, None)"
| "detectMacAddresses_range net (filePath # filePaths) addresses =
     (case fs_ReadFileString net (filepath_Join [filePath, ''address'']) of
        Inl err \<Rightarrow> (addresses, Some (WrapError err ''Reading mac address from file''))
      | Inr contents \<Rightarrow>
          let macAddress = strings_Trim contents [nl];
              interfaceName = filepath_Base filePath
          in detectMacAddresses_range net filePaths (addresses(macAddress \<mapsto> interfaceName)))"

definition detectMacAddresses :: "collaborators \<Rightarrow> (string \<rightharpoonup> string) \<times> error option" where
  "detectMacAddresses net =
     (let addresses = Map.empty in
      case fs_Glob net ''/sys/class/net/*'' of
        Inl err \<Rightarrow> (addresses, Some (WrapError err ''Getting file list from /sys/class/net''))
      | Inr filePaths \<Rightarrow> detectMacAddresses_range net filePaths addresses)"

definition map_index :: "(string \<rightharpoonup> string) \<Rightarrow> string \<Rightarrow> string" where
  "map_index m k = (case m k of None \<Rightarrow> [] | Some v \<Rightarrow> v)"

fun detectNetworkInterfaces_range ::
  "collaborators \<Rightarrow> string list \<Rightarrow> string list \<Rightarrow> host \<Rightarrow> string list \<times> host" where
  "detectNetworkInterfaces_range net [] interfaces h = (interfaces, h)"
| "detectNetworkInterfaces_range net (filePath # filePaths) interfaces h =
     (let exists = fs_FileExists net (filepath_Join [filePath, ''device'']) in
      if \<not> exists then
        detectNetworkInterfaces_range net filePaths interfaces
          (logger Info ubuntuNetManagerLogTag (''Ignoring virtual network device: '' @ filePath) h)
      else
        let interfaceName = filepath_Base filePath
        in detectNetworkInterfaces_range net filePaths (interfaces @ [interfaceName]) h)"

definition detectNetworkInterfaces :: "collaborators \<Rightarrow> host \<Rightarrow> (error + string list) \<times> host" where
  "detectNetworkInterfaces net h =
     (let interfaces = [] in
      case fs_Glob net ''/sys/class/net/*'' of
        Inl err \<Rightarrow> (Inl (WrapError err ''Getting file list from /sys/class/net''), h)
      | Inr filePaths \<Rightarrow>
          (case detectNetworkInterfaces_range net filePaths interfaces h of
             (interfaces', h') \<Rightarrow> (Inr interfaces', h')))"

section \<open>Restarting the network\<close>

fun restartNetworkingInterfaces :: "collaborators \<Rightarrow> customNetwork list \<Rightarrow> host \<Rightarrow> host" where
  "restartNetworkingInterfaces net [] h = h"
| "restartNetworkingInterfaces net (network # networks) h =
     (let h1 = logger Debug ubuntuNetManagerLogTag
                 (''Restarting network interface '' @ Interface network) h;
          ((_, _, _, err), h2) =
             RunCommand net ''service''
               [''network-interface'', ''stop'', ''INTERFACE='' @ Interface network] h1;
          h3 = (case err of
                  Some e \<Rightarrow> logger Error ubuntuNetManagerLogTag
                              (''Ignoring network stop failure: '' @ error_message e) h2
                | None \<Rightarrow> h2);
          ((_, _, _, err'), h4) =
             RunCommand net ''service''
               [''network-interface'', ''start'', ''INTERFACE='' @ Interface network] h3;
          h5 = (case err' of
                  Some e \<Rightarrow> logger Error ubuntuNetManagerLogTag
                              (''Ignoring network start failure: '' @ error_message e) h4
                | None \<Rightarrow> h4)
      in restartNetworkingInterfaces net networks h5)"

definition restartNetworkArguments :: "collaborators \<Rightarrow> host \<Rightarrow> string list \<times> host" where
  "restartNetworkArguments net h =
     (let ((_, _, _, err), h1) = RunCommand net ''ifup'' [''--version''] h;
          h2 = (case err of
                  Some e \<Rightarrow> logger Error ubuntuNetManagerLogTag
                              (''Ignoring ifup version failure: '' @ error_message e) h1
                | None \<Rightarrow> h1)
      in ([''-a'', ''--no-loopback''], h2))"

section \<open>DHCP setup\<close>

definition writeDhcpNetworkInterfaces :: "collaborators \<Rightarrow> host \<Rightarrow> error option \<times> host" where
  "writeDhcpNetworkInterfaces net h =
     (case detectNetworkInterfaces net h of
        (Inl err, h1) \<Rightarrow> (Some (WrapError err ''Detecting network interfaces''), h1)
      | (Inr interfaces, h1) \<Rightarrow>
          (case Execute ubuntuDhcpNetworkInterfacesTemplate interfaces of
             Inl err \<Rightarrow> (Some (WrapError err ''Generating config from template''), h1)
           | Inr buffer \<Rightarrow>
               (case ConvergeFileContents net ''/etc/network/interfaces'' buffer h1 of
                  (Inl err, h2) \<Rightarrow> (Some (WrapError err ''Writing to /etc/network/interfaces''), h2)
                | (Inr _, h2) \<Rightarrow> (None, h2))))"

definition SetupDhcp ::
  "collaborators \<Rightarrow> Networks \<Rightarrow> nat option \<Rightarrow> host \<Rightarrow> error option \<times> host" where
  "SetupDhcp net networks errCh h =
     (let h0 = logger Debug ubuntuNetManagerLogTag ''Configuring DHCP networking'' h in
      case writeDhcpNetworkInterfaces net h0 of
        (Some err, h1) \<Rightarrow> (Some (WrapError err ''Generating interfaces config from template''), h1)
      | (None, h1) \<Rightarrow>
          let (dnsNetwork, _) = DefaultNetworkFor net networks ''dns'';
              dnsServersList = strings_Join (DNS dnsNetwork) '', ''
          in
          (case Execute ubuntuDHCPConfigTemplate dnsServersList of
             Inl err \<Rightarrow> (Some (WrapError err ''Generating config from template''), h1)
           | Inr buffer \<Rightarrow>
               let dhclientConfigFile = ''/etc/dhcp/dhclient.conf'' in
               (case ConvergeFileContents net dhclientConfigFile buffer h1 of
                  (Inl err, h2) \<Rightarrow>
                    (Some (WrapError err (''Writing to '' @ dhclientConfigFile)), h2)
                | (Inr written, h2) \<Rightarrow>
                    let h3 =
                          (if written then
                             let (args, a1) = restartNetworkArguments net h2;
                                 a2 = logger Debug ubuntuNetManagerLogTag
                                        ''Restarting network interfaces'' a1;
                                 ((_, _, _, err), a3) = RunCommand net ''ifdown'' args a2;
                                 a4 = (case err of
                                         Some e \<Rightarrow> logger Error ubuntuNetManagerLogTag
                                                     (''Ignoring ifdown failure: '' @ error_message e) a3
                                       | None \<Rightarrow> a3);
                                 ((_, _, _, err'), a5) = RunCommand net ''ifup'' args a4
                             in (case err' of
                                   Some e \<Rightarrow> logger Error ubuntuNetManagerLogTag
                                               (''Ignoring ifup failure: '' @ error_message e) a5
                                 | None \<Rightarrow> a5)
                           else h2);
                        addresses = [ResolvingInterfaceAddress ''eth0'']
                    in (None, go (BroadcastMACAddresses addresses errCh) h3))))"

section \<open>Manual setup\<close>

text \<open>
  Modelled from the spec: \<open>toInterfaceAddresses\<close> (another file of the package, not
  among the sources): one address to broadcast for every resolved network, made of its
  interface name and its IP.
\<close>

definition toInterfaceAddresses :: "customNetwork list \<Rightarrow> InterfaceAddress list" where
  "toInterfaceAddresses networks =
     map (\<lambda>n. SimpleInterfaceAddress (Interface n) (IP (Network n))) networks"

fun writeNetworkInterfaces_range ::
  "collaborators \<Rightarrow> (string \<rightharpoonup> string) \<Rightarrow> Networks \<Rightarrow> customNetwork list
     \<Rightarrow> customNetwork list \<times> error option" where
  "writeNetworkInterfaces_range net macAddresses [] modifiedNetworks = (modifiedNetworks, None)"
| "writeNetworkInterfaces_range net macAddresses ((name, aNet) # networks) modifiedNetworks =
     (case CalculateNetworkAndBroadcast net (IP aNet) (Netmask aNet) of
        Inl err \<Rightarrow> (modifiedNetworks, Some (WrapError err ''Calculating network and broadcast''))
      | Inr (network, broadcast) \<Rightarrow>
          let newNet = \<lparr>Network = aNet,
                        Interface = map_index macAddresses (Mac aNet),
                        NetworkIP = network,
                        Broadcast = broadcast,
                        HasDefaultGateway = True\<rparr>
          in writeNetworkInterfaces_range net macAddresses networks (modifiedNetworks @ [newNet]))"

definition writeNetworkInterfaces ::
  "collaborators \<Rightarrow> Networks \<Rightarrow> host \<Rightarrow> (customNetwork list \<times> bool \<times> error option) \<times> host" where
  "writeNetworkInterfaces net networks h =
     (let modifiedNetworks = [] in
      case detectMacAddresses net of
        (macAddresses, Some err) \<Rightarrow>
          ((modifiedNetworks, False, Some (WrapError err ''Detecting mac addresses'')), h)
      | (macAddresses, None) \<Rightarrow>
          (case writeNetworkInterfaces_range net macAddresses networks modifiedNetworks of
             (modifiedNetworks, Some err) \<Rightarrow> ((modifiedNetworks, False, Some err), h)
           | (modifiedNetworks, None) \<Rightarrow>
               let networkInterfaceValues =
                     \<lparr>Networks = modifiedNetworks, HasDNSNameServers = False, DNSServers = []\<rparr>;
                   (dnsNetwork, _) = DefaultNetworkFor net networks ''dns'';
                   networkInterfaceValues = networkInterfaceValues\<lparr>HasDNSNameServers := True\<rparr>;
                   networkInterfaceValues = networkInterfaceValues\<lparr>DNSServers := DNS dnsNetwork\<rparr>
               in
               (case Execute networkInterfacesTemplate networkInterfaceValues of
                  Inl err \<Rightarrow>
                    ((modifiedNetworks, False, Some (WrapError err ''Generating config from template'')), h)
                | Inr buffer \<Rightarrow>
                    (case ConvergeFileContents net ''/etc/network/interfaces'' buffer h of
                       (Inl err, h1) \<Rightarrow>
                         ((modifiedNetworks, False,
                           Some (WrapError err ''Writing to /etc/network/interfaces'')), h1)
                     | (Inr written, h1) \<Rightarrow> ((modifiedNetworks, written, None), h1)))))"

definition SetupManualNetworking ::
  "collaborators \<Rightarrow> Networks \<Rightarrow> nat option \<Rightarrow> host \<Rightarrow> error option \<times> host" where
  "SetupManualNetworking net networks errCh h =
     (let h0 = logger Debug ubuntuNetManagerLogTag ''Configuring manual networking'' h in
      case writeNetworkInterfaces net networks h0 of
        ((modifiedNetworks, written, Some err), h1) \<Rightarrow>
          (Some (WrapError err ''Writing network interfaces''), h1)
      | ((modifiedNetworks, written, None), h1) \<Rightarrow>
          let h2 = (if written then restartNetworkingInterfaces net modifiedNetworks h1 else h1);
              addresses = toInterfaceAddresses modifiedNetworks
          in (None, go (BroadcastMACAddresses addresses errCh) h2))"

section \<open>Resolver file\<close>

definition writeResolvConf :: "collaborators \<Rightarrow> Networks \<Rightarrow> host \<Rightarrow> error option \<times> host" where
  "writeResolvConf net networks h =
     (let h0 = logger Debug ubuntuNetManagerLogTag ''Writing resolv.conf'' h;
          (dnsNetwork, _) = DefaultNetworkFor net networks ''dns'';
          dnsServersArg = \<lparr>dnsServers = DNS dnsNetwork\<rparr>
      in
      case Execute ubuntuResolvConfTemplate dnsServersArg of
        Inl err \<Rightarrow> (Some (WrapError err ''Generating config from template''), h0)
      | Inr buffer \<Rightarrow>
          (case WriteFile net ''/etc/resolv.conf'' buffer h0 of
             (Some err, h1) \<Rightarrow> (Some (WrapError err ''Writing to /etc/resolv.conf''), h1)
           | (None, h1) \<Rightarrow> (None, h1)))"

section \<open>Notions used to state the properties\<close>

text \<open>
  The hardware address an enumerated entry reports: the content of its \<open>address\<close>
  file without the newlines at its ends, or nothing when the read fails.
\<close>

definition macAddressOf :: "collaborators \<Rightarrow> string \<Rightarrow> string option" where
  "macAddressOf net filePath =
     (case fs_ReadFileString net (filepath_Join [filePath, ''address'']) of
        Inl err \<Rightarrow> None
      | Inr contents \<Rightarrow> Some (strings_Trim contents [nl]))"

text \<open>An enumerated entry exposes a device descriptor.\<close>

definition hasDevice :: "collaborators \<Rightarrow> string \<Rightarrow> bool" where
  "hasDevice net filePath = fs_FileExists net (filepath_Join [filePath, ''device''])"

text \<open>The informational notes for the entries that are skipped, in enumeration order.\<close>

definition skippedNotes ::
  "collaborators \<Rightarrow> string list \<Rightarrow> (log_level \<times> string \<times> string) list" where
  "skippedNotes net filePaths =
     map (\<lambda>p. (Info, ubuntuNetManagerLogTag, ''Ignoring virtual network device: '' @ p))
       (filter (\<lambda>p. \<not> hasDevice net p) filePaths)"

text \<open>The commands of a restart in DHCP mode, in the order in which they are run.\<close>

definition restartCommands :: "(string \<times> string list) list" where
  "restartCommands =
     [(''ifup'', [''--version'']),
      (''ifdown'', [''-a'', ''--no-loopback'']),
      (''ifup'', [''-a'', ''--no-loopback''])]"

text \<open>
  A resolved network belongs to an entry of the desired networks under an inventory:
  it carries the entry's network, the inventory's interface name for its MAC (empty
  when the inventory has none), the computed network and broadcast addresses, and the
  gateway flag.
\<close>

definition resolves ::
  "collaborators \<Rightarrow> (string \<rightharpoonup> string) \<Rightarrow> string \<times> Network \<Rightarrow> customNetwork \<Rightarrow> bool" where
  "resolves net macAddresses entry n \<longleftrightarrow>
     Network n = snd entry \<and>
     Interface n = (case macAddresses (Mac (snd entry)) of None \<Rightarrow> [] | Some i \<Rightarrow> i) \<and>
     CalculateNetworkAndBroadcast net (IP (snd entry)) (Netmask (snd entry)) =
       Inr (NetworkIP n, Broadcast n) \<and>
     HasDefaultGateway n"

text \<open>The text of the static interfaces file for a list of resolved networks.\<close>

definition staticContent :: "collaborators \<Rightarrow> Networks \<Rightarrow> customNetwork list \<Rightarrow> string" where
  "staticContent net networks modifiedNetworks =
     networkInterfacesTemplate
       \<lparr>Networks = modifiedNetworks, HasDNSNameServers = True,
        DNSServers = DNS (fst (DefaultNetworkFor net networks ''dns''))\<rparr>"

text \<open>The text of the DHCP client directive file for the desired networks.\<close>

definition dhclientContent :: "collaborators \<Rightarrow> Networks \<Rightarrow> string" where
  "dhclientContent net networks =
     ubuntuDHCPConfigTemplate
       (strings_Join (DNS (fst (DefaultNetworkFor net networks ''dns''))) '', '')"

text \<open>
  The lines of a static block that every resolved network gets: \<open>auto\<close> and \<open>iface\<close>
  with the interface name, then address, network, netmask and broadcast.
\<close>

definition staticStanza :: "string \<Rightarrow> string \<Rightarrow> string \<Rightarrow> string \<Rightarrow> string \<Rightarrow> string" where
  "staticStanza iface address network netmask broadcast =
     ''auto '' @ iface @ [nl] @
     ''iface '' @ iface @ '' inet static'' @ [nl] @
     ''    address '' @ address @ [nl] @
     ''    network '' @ network @ [nl] @
     ''    netmask '' @ netmask @ [nl] @
     ''    broadcast '' @ broadcast @ [nl]"

section \<open>Example hosts and networks\<close>

text \<open>\<open>Network{}\<close>, the zero value.\<close>

definition noNetwork :: Network where
  "noNetwork = \<lparr>IP = [], Netmask = [], Gateway = [], Default = [], DNS = [], Mac = []\<rparr>"

text \<open>A resolution of the default network: the first entry tagged with the category.\<close>

definition firstDefaultFor :: "Networks \<Rightarrow> string \<Rightarrow> Network \<times> bool" where
  "firstDefaultFor networks category =
     (case filter (\<lambda>entry. category \<in> set (Default (snd entry))) networks of
        [] \<Rightarrow> (noNetwork, False)
      | entry # rest \<Rightarrow> (snd entry, True))"

text \<open>
  A host with a network card \<open>eth1\<close> and the loopback device; every write and every
  command succeeds.
\<close>

definition example_net :: collaborators where
  "example_net =
     \<lparr>fs_Glob = (\<lambda>pattern. if pattern = ''/sys/class/net/*''
                            then Inr [''/sys/class/net/eth1'', ''/sys/class/net/lo'']
                            else Inr []),
      fs_ReadFileString =
        (\<lambda>path. if path = ''/sys/class/net/eth1/address'' then Inr (''aa:bb:cc:dd:ee:ff'' @ [nl])
                 else if path = ''/sys/class/net/lo/address'' then Inr (''00:00:00:00:00:00'' @ [nl])
                 else Inl (NewError ''no such file'')),
      fs_FileExists = (\<lambda>path. path = ''/sys/class/net/eth1/device''),
      fs_ConvergeFailure = (\<lambda>path. None),
      fs_WriteFailure = (\<lambda>path. None),
      cmdRunner = (\<lambda>name args. ([], [], 0, None)),
      CalculateNetworkAndBroadcast =
        (\<lambda>ip mask. if ip = ''10.0.0.5'' \<and> mask = ''255.255.255.0''
                    then Inr (''10.0.0.0'', ''10.0.0.255'')
                    else Inl (NewError ''invalid address'')),
      DefaultNetworkFor = firstDefaultFor\<rparr>"

text \<open>The same host when every command exits with a failure.\<close>

definition failing_commands_net :: collaborators where
  "failing_commands_net =
     example_net\<lparr>cmdRunner := (\<lambda>name args. ([], ''failed'', 1, Some (NewError ''exit status 1'')))\<rparr>"

text \<open>The same host when the enumeration fails.\<close>

definition failing_glob_net :: collaborators where
  "failing_glob_net = example_net\<lparr>fs_Glob := (\<lambda>pattern. Inl (NewError ''glob failed''))\<rparr>"

text \<open>The same host when the address of the second entry cannot be read.\<close>

definition unreadable_lo_net :: collaborators where
  "unreadable_lo_net =
     example_net\<lparr>fs_ReadFileString :=
        (\<lambda>path. if path = ''/sys/class/net/eth1/address'' then Inr (''aa:bb:cc:dd:ee:ff'' @ [nl])
                 else Inl (NewError ''read failed''))\<rparr>"

text \<open>The same host when both entries report one hardware address.\<close>

definition cloned_mac_net :: collaborators where
  "cloned_mac_net =
     example_net\<lparr>fs_ReadFileString := (\<lambda>path. Inr (''aa:bb:cc:dd:ee:ff'' @ [nl]))\<rparr>"


definition idle :: host where
  "idle = \<lparr>files = Map.empty, commands = [], logs = [], goroutines = []\<rparr>"

text \<open>A static network bound to \<open>eth1\<close>, with a gateway and two DNS servers.\<close>

definition static_network :: Network where
  "static_network =
     \<lparr>IP = ''10.0.0.5'', Netmask = ''255.255.255.0'', Gateway = ''10.0.0.1'',
      Default = [''dns'', ''gateway''], DNS = [''8.8.8.8'', ''8.8.4.4''],
      Mac = ''aa:bb:cc:dd:ee:ff''\<rparr>"

text \<open>A network with no gateway, no DNS server and a MAC that no interface has.\<close>

definition bare_network :: Network where
  "bare_network =
     \<lparr>IP = ''10.0.0.5'', Netmask = ''255.255.255.0'', Gateway = [],
      Default = [], DNS = [], Mac = ''de:ad:be:ef:00:01''\<rparr>"

text \<open>The static network without DNS servers, and without a gateway.\<close>

definition no_dns_network :: Network where
  "no_dns_network = static_network\<lparr>DNS := []\<rparr>"

definition no_gateway_network :: Network where
  "no_gateway_network = static_network\<lparr>Gateway := []\<rparr>"

text \<open>
  The static interfaces files that the manager writes on the example host for these two
  networks.
\<close>

definition no_dns_interfaces_file :: string where
  "no_dns_interfaces_file =
     ''# Generated by bosh-agent'' @ [nl] @
     ''auto lo'' @ [nl] @
     ''iface lo inet loopback'' @ [nl] @
     [nl] @
     ''auto eth1'' @ [nl] @
     ''iface eth1 inet static'' @ [nl] @
     ''    address 10.0.0.5'' @ [nl] @
     ''    network 10.0.0.0'' @ [nl] @
     ''    netmask 255.255.255.0'' @ [nl] @
     ''    broadcast 10.0.0.255'' @ [nl] @
     ''    gateway 10.0.0.1'' @ [nl] @
     ''dns-nameservers''"

definition no_gateway_interfaces_file :: string where
  "no_gateway_interfaces_file =
     ''# Generated by bosh-agent'' @ [nl] @
     ''auto lo'' @ [nl] @
     ''iface lo inet loopback'' @ [nl] @
     [nl] @
     ''auto eth1'' @ [nl] @
     ''iface eth1 inet static'' @ [nl] @
     ''    address 10.0.0.5'' @ [nl] @
     ''    network 10.0.0.0'' @ [nl] @
     ''    netmask 255.255.255.0'' @ [nl] @
     ''    broadcast 10.0.0.255'' @ [nl] @
     ''    gateway '' @ [nl] @
     ''dns-nameservers 8.8.8.8 8.8.4.4''"

section \<open>The inventory loops\<close>

lemma detectNetworkInterfaces_range_eq:
  "detectNetworkInterfaces_range net ps acc h =
     (acc @ map filepath_Base (filter (hasDevice net) ps),
      h\<lparr>logs := logs h @ skippedNotes net ps\<rparr>)"
  by (induction ps arbitrary: acc h)
     (simp_all add: Let_def logger_def hasDevice_def skippedNotes_def del: filepath_Join.simps)

lemma detectNetworkInterfaces_Inl:
  "fs_Glob net ''/sys/class/net/*'' = Inl err \<Longrightarrow>
     detectNetworkInterfaces net h = (Inl (WrapError err ''Getting file list from /sys/class/net''), h)"
  by (simp add: detectNetworkInterfaces_def)

lemma detectNetworkInterfaces_Inr:
  "fs_Glob net ''/sys/class/net/*'' = Inr ps \<Longrightarrow>
     detectNetworkInterfaces net h =
       (Inr (map filepath_Base (filter (hasDevice net) ps)), h\<lparr>logs := logs h @ skippedNotes net ps\<rparr>)"
  by (simp add: detectNetworkInterfaces_def detectNetworkInterfaces_range_eq)

lemma find_append_first:
  "find P (xs @ ys) = (case find P xs of None \<Rightarrow> find P ys | Some x \<Rightarrow> Some x)"
  by (induction xs) simp_all

lemma detectMacAddresses_range_Cons:
  "detectMacAddresses_range net (p # ps) acc =
     (case fs_ReadFileString net (filepath_Join [p, ''address'']) of
        Inl err \<Rightarrow> (acc, Some (WrapError err ''Reading mac address from file''))
      | Inr contents \<Rightarrow>
          detectMacAddresses_range net ps (acc(strings_Trim contents [nl] \<mapsto> filepath_Base p)))"
  by (simp add: Let_def del: filepath_Join.simps split: sum.splits)

lemma find_SomeD: "find P xs = Some x \<Longrightarrow> x \<in> set xs \<and> P x"
  by (induction xs) (auto split: if_splits)

lemma detectMacAddresses_range_lookup:
  "fst (detectMacAddresses_range net ps acc) mac =
     (case find (\<lambda>p. macAddressOf net p = Some mac)
             (rev (takeWhile (\<lambda>p. macAddressOf net p \<noteq> None) ps)) of
        Some p \<Rightarrow> Some (filepath_Base p)
      | None \<Rightarrow> acc mac)"
proof (induction ps arbitrary: acc)
  case Nil
  show ?case by simp
next
  case (Cons p ps)
  show ?case
  proof (cases "fs_ReadFileString net (filepath_Join [p, ''address''])")
    case (Inl err)
    then show ?thesis
      by (simp add: macAddressOf_def detectMacAddresses_range_Cons
               del: detectMacAddresses_range.simps filepath_Join.simps)
  next
    case (Inr contents)
    then have m: "macAddressOf net p = Some (strings_Trim contents [nl])"
      by (simp add: macAddressOf_def del: filepath_Join.simps)
    have "fst (detectMacAddresses_range net (p # ps) acc) mac =
            fst (detectMacAddresses_range net ps
                   (acc(strings_Trim contents [nl] \<mapsto> filepath_Base p))) mac"
      using Inr by (simp add: detectMacAddresses_range_Cons
                         del: detectMacAddresses_range.simps filepath_Join.simps)
    also have "\<dots> =
        (case find (\<lambda>p. macAddressOf net p = Some mac)
                (rev (takeWhile (\<lambda>p. macAddressOf net p \<noteq> None) ps)) of
           Some p \<Rightarrow> Some (filepath_Base p)
         | None \<Rightarrow> (acc(strings_Trim contents [nl] \<mapsto> filepath_Base p)) mac)"
      by (rule Cons.IH)
    also have "\<dots> =
        (case find (\<lambda>p. macAddressOf net p = Some mac)
                (rev (takeWhile (\<lambda>p. macAddressOf net p \<noteq> None) (p # ps))) of
           Some p \<Rightarrow> Some (filepath_Base p)
         | None \<Rightarrow> acc mac)"
      using m by (auto simp: find_append_first split: option.splits)
    finally show ?thesis .
  qed
qed

lemma detectMacAddresses_range_error:
  "snd (detectMacAddresses_range net ps acc) = None \<longleftrightarrow>
     (\<forall>p \<in> set ps. macAddressOf net p \<noteq> None)"
proof (induction ps arbitrary: acc)
  case Nil
  show ?case by simp
next
  case (Cons p ps)
  show ?case
    by (cases "fs_ReadFileString net (filepath_Join [p, ''address''])")
       (simp_all add: macAddressOf_def detectMacAddresses_range_Cons Cons.IH
                 del: detectMacAddresses_range.simps filepath_Join.simps)
qed

lemma detectMacAddresses_range_dom:
  "dom (fst (detectMacAddresses_range net ps acc)) \<subseteq>
     dom acc \<union> {mac. \<exists>p \<in> set ps. macAddressOf net p = Some mac}"
proof
  fix mac
  assume "mac \<in> dom (fst (detectMacAddresses_range net ps acc))"
  then obtain name where "fst (detectMacAddresses_range net ps acc) mac = Some name"
    by auto
  then have "(case find (\<lambda>p. macAddressOf net p = Some mac)
             (rev (takeWhile (\<lambda>p. macAddressOf net p \<noteq> None) ps)) of
        Some p \<Rightarrow> Some (filepath_Base p)
      | None \<Rightarrow> acc mac) = Some name"
    by (simp only: detectMacAddresses_range_lookup)
  then show "mac \<in> dom acc \<union> {mac. \<exists>p \<in> set ps. macAddressOf net p = Some mac}"
  proof (cases "find (\<lambda>p. macAddressOf net p = Some mac)
             (rev (takeWhile (\<lambda>p. macAddressOf net p \<noteq> None) ps))")
    case None
    then show ?thesis
      using \<open>(case find (\<lambda>p. macAddressOf net p = Some mac)
             (rev (takeWhile (\<lambda>p. macAddressOf net p \<noteq> None) ps)) of
        Some p \<Rightarrow> Some (filepath_Base p)
      | None \<Rightarrow> acc mac) = Some name\<close> by auto
  next
    case (Some q)
    then have "q \<in> set (takeWhile (\<lambda>p. macAddressOf net p \<noteq> None) ps)"
      and "macAddressOf net q = Some mac"
      by (auto dest: find_SomeD)
    then have "q \<in> set ps" by (auto dest: set_takeWhileD)
    with \<open>macAddressOf net q = Some mac\<close> show ?thesis by auto
  qed
qed

lemma detectMacAddresses_card:
  assumes "fs_Glob net ''/sys/class/net/*'' = Inr filePaths"
  shows "finite (dom (fst (detectMacAddresses net)))"
    and "card (dom (fst (detectMacAddresses net))) \<le> length filePaths"
proof -
  let ?S = "{mac. \<exists>p \<in> set filePaths. macAddressOf net p = Some mac}"
  have sub: "dom (fst (detectMacAddresses net)) \<subseteq> ?S"
    using assms detectMacAddresses_range_dom [of net filePaths Map.empty]
    by (simp add: detectMacAddresses_def)
  have "?S \<subseteq> (\<lambda>p. the (macAddressOf net p)) ` set filePaths"
    by force
  then have fin: "finite ?S" and c: "card ?S \<le> card (set filePaths)"
    by (auto intro: finite_subset surj_card_le)
  show "finite (dom (fst (detectMacAddresses net)))"
    using sub fin by (rule finite_subset)
  have "card (dom (fst (detectMacAddresses net))) \<le> card ?S"
    using sub fin by (simp add: card_mono)
  also have "\<dots> \<le> length filePaths"
    using c card_length [of filePaths] by linarith
  finally show "card (dom (fst (detectMacAddresses net))) \<le> length filePaths" .
qed

section \<open>Convergence and DHCP setup\<close>

lemma ConvergeFileContents_frame:
  "ConvergeFileContents net path content h = (r, h') \<Longrightarrow>
     commands h' = commands h \<and> goroutines h' = goroutines h \<and> logs h' = logs h"
  by (auto simp: ConvergeFileContents_def split: option.splits if_splits)

lemma ConvergeFileContents_files:
  "ConvergeFileContents net path content h = (Inr written, h') \<Longrightarrow>
     files h' = (files h)(path \<mapsto> content)"
  by (auto simp: ConvergeFileContents_def split: option.splits if_splits)

lemma ConvergeFileContents_Inl:
  "ConvergeFileContents net path content h = (Inl err, h') \<Longrightarrow>
     h' = h \<and> fs_ConvergeFailure net path = Some err"
  by (auto simp: ConvergeFileContents_def split: option.splits if_splits)

lemma ConvergeFileContents_again:
  "fs_ConvergeFailure net path = None \<Longrightarrow> files h path = Some content \<Longrightarrow>
     ConvergeFileContents net path content h = (Inr False, h)"
  by (simp add: ConvergeFileContents_def)

lemma writeDhcpNetworkInterfaces_frame:
  "writeDhcpNetworkInterfaces net h = (r, h') \<Longrightarrow>
     commands h' = commands h \<and> goroutines h' = goroutines h"
  by (cases "fs_Glob net ''/sys/class/net/*''")
     (auto simp: writeDhcpNetworkInterfaces_def detectNetworkInterfaces_Inl
                 detectNetworkInterfaces_Inr Execute_def
           split: prod.splits sum.splits dest: ConvergeFileContents_frame)

lemma writeDhcpNetworkInterfaces_None:
  assumes "writeDhcpNetworkInterfaces net h = (None, h')"
  shows "\<exists>ps. fs_Glob net ''/sys/class/net/*'' = Inr ps \<and>
           fs_ConvergeFailure net ''/etc/network/interfaces'' = None \<and>
           files h' = (files h)(''/etc/network/interfaces'' \<mapsto>
              ubuntuDhcpNetworkInterfacesTemplate (map filepath_Base (filter (hasDevice net) ps)))"
  using assms
  by (cases "fs_Glob net ''/sys/class/net/*''")
     (auto simp: writeDhcpNetworkInterfaces_def detectNetworkInterfaces_Inl ConvergeFileContents_def
                 detectNetworkInterfaces_Inr Execute_def
           split: prod.splits sum.splits option.splits if_splits)

lemma writeDhcpNetworkInterfaces_again:
  assumes "fs_Glob net ''/sys/class/net/*'' = Inr ps"
    and "fs_ConvergeFailure net ''/etc/network/interfaces'' = None"
    and "files h ''/etc/network/interfaces'' =
           Some (ubuntuDhcpNetworkInterfacesTemplate (map filepath_Base (filter (hasDevice net) ps)))"
  shows "writeDhcpNetworkInterfaces net h = (None, h\<lparr>logs := logs h @ skippedNotes net ps\<rparr>)"
  using assms
  by (simp add: writeDhcpNetworkInterfaces_def detectNetworkInterfaces_Inr Execute_def
                ConvergeFileContents_def)

lemma writeDhcpNetworkInterfaces_error:
  "fst (writeDhcpNetworkInterfaces net h) = None \<longleftrightarrow>
     (\<exists>ps. fs_Glob net ''/sys/class/net/*'' = Inr ps) \<and>
     fs_ConvergeFailure net ''/etc/network/interfaces'' = None"
  by (cases "fs_Glob net ''/sys/class/net/*''")
     (auto simp: writeDhcpNetworkInterfaces_def detectNetworkInterfaces_Inl ConvergeFileContents_def
                 detectNetworkInterfaces_Inr Execute_def
           split: prod.splits sum.splits option.splits if_splits)

lemma SetupDhcp_steps:
  assumes s1: "writeDhcpNetworkInterfaces net
                 (logger Debug ubuntuNetManagerLogTag ''Configuring DHCP networking'' h) = (None, h1)"
    and s3: "ConvergeFileContents net ''/etc/dhcp/dhclient.conf''
               (ubuntuDHCPConfigTemplate
                  (strings_Join (DNS (fst (DefaultNetworkFor net networks ''dns''))) '', '')) h1 =
             (Inr written, h2)"
  shows "fst (SetupDhcp net networks errCh h) = None"
    and "commands (snd (SetupDhcp net networks errCh h)) =
           commands h @ (if written then restartCommands else [])"
    and "files (snd (SetupDhcp net networks errCh h)) = files h2"
    and "goroutines (snd (SetupDhcp net networks errCh h)) =
           goroutines h @ [BroadcastMACAddresses [ResolvingInterfaceAddress ''eth0''] errCh]"
proof -
  have c1: "commands h1 = commands h" and g1: "goroutines h1 = goroutines h"
    using writeDhcpNetworkInterfaces_frame [OF s1] by (simp_all add: logger_def)
  have c2: "commands h2 = commands h" and g2: "goroutines h2 = goroutines h"
    using ConvergeFileContents_frame [OF s3] c1 g1 by simp_all
  show "fst (SetupDhcp net networks errCh h) = None"
    using s1 s3
    by (simp add: SetupDhcp_def Execute_def Let_def case_prod_beta)
  show "commands (snd (SetupDhcp net networks errCh h)) =
           commands h @ (if written then restartCommands else [])"
    using s1 s3 c2
    by (simp add: SetupDhcp_def Execute_def Let_def restartNetworkArguments_def RunCommand_def
                  logger_def go_def restartCommands_def
                  case_prod_beta
             split: option.splits)
  show "files (snd (SetupDhcp net networks errCh h)) = files h2"
    using s1 s3
    by (simp add: SetupDhcp_def Execute_def Let_def restartNetworkArguments_def RunCommand_def
                  logger_def go_def
                  case_prod_beta
             split: option.splits)
  show "goroutines (snd (SetupDhcp net networks errCh h)) =
           goroutines h @ [BroadcastMACAddresses [ResolvingInterfaceAddress ''eth0''] errCh]"
    using s1 s3 g2
    by (simp add: SetupDhcp_def Execute_def Let_def restartNetworkArguments_def RunCommand_def
                  logger_def go_def
                  case_prod_beta
             split: option.splits)
qed

lemma ConvergeFileContents_Inr:
  "ConvergeFileContents net path content h = (Inr written, h') \<Longrightarrow>
     fs_ConvergeFailure net path = None"
  by (auto simp: ConvergeFileContents_def split: option.splits if_splits)

lemma ConvergeFileContents_total:
  "fs_ConvergeFailure net path = None \<Longrightarrow>
     \<exists>written h'. ConvergeFileContents net path content h = (Inr written, h')"
  by (auto simp: ConvergeFileContents_def)

lemma SetupDhcp_error:
  "fst (SetupDhcp net networks errCh h) = None \<longleftrightarrow>
     (\<exists>ps. fs_Glob net ''/sys/class/net/*'' = Inr ps) \<and>
     fs_ConvergeFailure net ''/etc/network/interfaces'' = None \<and>
     fs_ConvergeFailure net ''/etc/dhcp/dhclient.conf'' = None"
proof -
  let ?h0 = "logger Debug ubuntuNetManagerLogTag ''Configuring DHCP networking'' h"
  let ?content = "ubuntuDHCPConfigTemplate
                    (strings_Join (DNS (fst (DefaultNetworkFor net networks ''dns''))) '', '')"
  obtain r h1 where s1: "writeDhcpNetworkInterfaces net ?h0 = (r, h1)"
    by (cases "writeDhcpNetworkInterfaces net ?h0")
  show ?thesis
  proof (cases r)
    case (Some err)
    then have "fst (SetupDhcp net networks errCh h) \<noteq> None"
      using s1 by (simp add: SetupDhcp_def)
    moreover have "fst (writeDhcpNetworkInterfaces net ?h0) \<noteq> None"
      using s1 Some by simp
    ultimately show ?thesis
      using writeDhcpNetworkInterfaces_error [of net ?h0] by auto
  next
    case None
    then have ok: "(\<exists>ps. fs_Glob net ''/sys/class/net/*'' = Inr ps) \<and>
                   fs_ConvergeFailure net ''/etc/network/interfaces'' = None"
      using s1 writeDhcpNetworkInterfaces_error [of net ?h0] by simp
    obtain c h2 where s3: "ConvergeFileContents net ''/etc/dhcp/dhclient.conf'' ?content h1 = (c, h2)"
      by (cases "ConvergeFileContents net ''/etc/dhcp/dhclient.conf'' ?content h1")
    show ?thesis
    proof (cases c)
      case (Inl err)
      then have "fst (SetupDhcp net networks errCh h) \<noteq> None"
        using s1 s3 None by (simp add: SetupDhcp_def Execute_def Let_def case_prod_beta)
      moreover have "fs_ConvergeFailure net ''/etc/dhcp/dhclient.conf'' \<noteq> None"
        using s3 Inl ConvergeFileContents_Inl by fastforce
      ultimately show ?thesis by auto
    next
      case (Inr written)
      then have "fst (SetupDhcp net networks errCh h) = None"
        using SetupDhcp_steps(1) s1 s3 None by blast
      moreover have "fs_ConvergeFailure net ''/etc/dhcp/dhclient.conf'' = None"
        using s3 Inr ConvergeFileContents_Inr by blast
      ultimately show ?thesis using ok by auto
    qed
  qed
qed


section \<open>Static setup\<close>

lemma strings_Contains_sublist: "strings_Contains s substr \<longleftrightarrow> sublist substr s"
proof (induction s)
  case Nil
  show ?case by simp
next
  case (Cons c cs)
  show ?case
  proof (cases substr)
    case Nil
    then show ?thesis by simp
  next
    case (Cons d ds)
    then show ?thesis using Cons.IH by (simp add: sublist_Cons_right)
  qed
qed

lemma strings_Contains_middle: "strings_Contains (a @ s @ b) s"
  by (simp add: strings_Contains_sublist sublist_appendI)

lemma concat_map_middle:
  "x \<in> set xs \<Longrightarrow> \<exists>a b. concat (map f xs) = a @ f x @ b"
proof -
  assume "x \<in> set xs"
  then obtain ys zs where "xs = ys @ x # zs" by (auto dest: split_list)
  then have "concat (map f xs) = concat (map f ys) @ f x @ concat (map f zs)" by simp
  then show ?thesis by blast
qed

lemma writeNetworkInterfaces_range_None:
  "writeNetworkInterfaces_range net macAddresses networks acc = (res, None) \<Longrightarrow>
     \<exists>new. res = acc @ new \<and> list_all2 (resolves net macAddresses) networks new"
proof (induction networks arbitrary: acc)
  case Nil
  then show ?case by simp
next
  case (Cons entry networks)
  obtain name aNet where e: "entry = (name, aNet)" by (cases entry)
  show ?case
  proof (cases "CalculateNetworkAndBroadcast net (IP aNet) (Netmask aNet)")
    case (Inl err)
    then show ?thesis using Cons.prems e by simp
  next
    case (Inr nb)
    obtain network broadcast where nb: "nb = (network, broadcast)" by (cases nb)
    let ?newNet = "\<lparr>Network = aNet, Interface = map_index macAddresses (Mac aNet),
                    NetworkIP = network, Broadcast = broadcast, HasDefaultGateway = True\<rparr>"
    have "writeNetworkInterfaces_range net macAddresses networks (acc @ [?newNet]) = (res, None)"
      using Cons.prems e Inr nb by simp
    then obtain new where new: "res = (acc @ [?newNet]) @ new"
      and all: "list_all2 (resolves net macAddresses) networks new"
      using Cons.IH by blast
    have "resolves net macAddresses entry ?newNet"
      using e Inr nb by (simp add: resolves_def map_index_def)
    then have "list_all2 (resolves net macAddresses) (entry # networks) (?newNet # new)"
      using all by simp
    moreover have "res = acc @ (?newNet # new)" using new by simp
    ultimately show ?thesis by blast
  qed
qed

lemma writeNetworkInterfaces_range_error:
  "snd (writeNetworkInterfaces_range net macAddresses networks acc) = None \<longleftrightarrow>
     (\<forall>(name, aNet) \<in> set networks.
        \<exists>nb. CalculateNetworkAndBroadcast net (IP aNet) (Netmask aNet) = Inr nb)"
proof (induction networks arbitrary: acc)
  case Nil
  show ?case by simp
next
  case (Cons entry networks)
  obtain name aNet where e: "entry = (name, aNet)" by (cases entry)
  show ?case
    by (cases "CalculateNetworkAndBroadcast net (IP aNet) (Netmask aNet)")
       (auto simp: e Cons.IH)
qed


lemma detectMacAddresses_Some:
  "detectMacAddresses net = (m, Some err) \<Longrightarrow> \<exists>inner msg. err = WrapError inner msg"
proof (cases "fs_Glob net ''/sys/class/net/*''")
  case (Inl e)
  assume "detectMacAddresses net = (m, Some err)"
  then show ?thesis using Inl by (auto simp: detectMacAddresses_def)
next
  case (Inr ps)
  assume a: "detectMacAddresses net = (m, Some err)"
  have "\<And>acc. detectMacAddresses_range net ps acc = (m, Some err) \<Longrightarrow>
          \<exists>inner msg. err = WrapError inner msg"
    by (induction ps) (auto simp: Let_def split: sum.splits simp del: filepath_Join.simps)
  then show ?thesis using a Inr by (simp add: detectMacAddresses_def)
qed

lemma writeNetworkInterfaces_detect_failed:
  "detectMacAddresses net = (m, Some err) \<Longrightarrow>
     writeNetworkInterfaces net networks h =
       (([], False, Some (WrapError err ''Detecting mac addresses'')), h)"
  by (simp add: writeNetworkInterfaces_def)

lemma writeNetworkInterfaces_range_failed:
  "detectMacAddresses net = (m, None) \<Longrightarrow>
   writeNetworkInterfaces_range net m networks [] = (res, Some err) \<Longrightarrow>
     writeNetworkInterfaces net networks h = ((res, False, Some err), h)"
  by (simp add: writeNetworkInterfaces_def)

lemma writeNetworkInterfaces_rendered:
  "detectMacAddresses net = (m, None) \<Longrightarrow>
   writeNetworkInterfaces_range net m networks [] = (res, None) \<Longrightarrow>
     writeNetworkInterfaces net networks h =
       (case ConvergeFileContents net ''/etc/network/interfaces''
               (staticContent net networks res) h of
          (Inl err, h1) \<Rightarrow>
            ((res, False, Some (WrapError err ''Writing to /etc/network/interfaces'')), h1)
        | (Inr written, h1) \<Rightarrow> ((res, written, None), h1))"
  by (simp add: writeNetworkInterfaces_def Execute_def Let_def case_prod_beta staticContent_def
           split: sum.splits)

lemma writeNetworkInterfaces_error:
  "snd (snd (fst (writeNetworkInterfaces net networks h))) = None \<longleftrightarrow>
     snd (detectMacAddresses net) = None \<and>
     (\<forall>(name, aNet) \<in> set networks.
        \<exists>nb. CalculateNetworkAndBroadcast net (IP aNet) (Netmask aNet) = Inr nb) \<and>
     fs_ConvergeFailure net ''/etc/network/interfaces'' = None"
proof -
  obtain m e where d: "detectMacAddresses net = (m, e)"
    by (cases "detectMacAddresses net")
  show ?thesis
  proof (cases e)
    case (Some err)
    then show ?thesis using d by (simp add: writeNetworkInterfaces_detect_failed)
  next
    case None
    obtain res e2 where r: "writeNetworkInterfaces_range net m networks [] = (res, e2)"
      by (cases "writeNetworkInterfaces_range net m networks []")
    have calc: "e2 = None \<longleftrightarrow>
        (\<forall>(name, aNet) \<in> set networks.
           \<exists>nb. CalculateNetworkAndBroadcast net (IP aNet) (Netmask aNet) = Inr nb)"
      using writeNetworkInterfaces_range_error [of net m networks "[]"] r by simp
    show ?thesis
    proof (cases e2)
      case (Some err)
      then show ?thesis
        using d None r calc by (simp add: writeNetworkInterfaces_range_failed)
    next
      case n2: None
      show ?thesis
        using d None r n2 calc
        by (auto simp: writeNetworkInterfaces_rendered ConvergeFileContents_def
                 split: option.splits)
    qed
  qed
qed


lemma restartNetworkingInterfaces_frame:
  "files (restartNetworkingInterfaces net networks h) = files h \<and>
   goroutines (restartNetworkingInterfaces net networks h) = goroutines h"
  by (induction networks arbitrary: h)
     (simp_all add: Let_def case_prod_beta RunCommand_def logger_def split: option.splits)

lemma restartNetworkingInterfaces_commands:
  "commands (restartNetworkingInterfaces net networks h) =
     commands h @
     concat (map (\<lambda>n. [(''service'', [''network-interface'', ''stop'', ''INTERFACE='' @ Interface n]),
                        (''service'', [''network-interface'', ''start'', ''INTERFACE='' @ Interface n])])
                 networks)"
  by (induction networks arbitrary: h)
     (simp_all add: Let_def case_prod_beta RunCommand_def logger_def split: option.splits)

lemma SetupManualNetworking_error:
  "fst (SetupManualNetworking net networks errCh h) = None \<longleftrightarrow>
     snd (snd (fst (writeNetworkInterfaces net networks h))) = None"
proof -
  let ?h0 = "logger Debug ubuntuNetManagerLogTag ''Configuring manual networking'' h"
  obtain res written e h1 where w: "writeNetworkInterfaces net networks ?h0 = ((res, written, e), h1)"
    by (cases "writeNetworkInterfaces net networks ?h0") auto
  have "fst (SetupManualNetworking net networks errCh h) = None \<longleftrightarrow> e = None"
    using w by (cases e) (simp_all add: SetupManualNetworking_def Let_def)
  moreover have "e = None \<longleftrightarrow> snd (snd (fst (writeNetworkInterfaces net networks ?h0))) = None"
    using w by simp
  ultimately show ?thesis
    by (simp only: writeNetworkInterfaces_error)
qed


section \<open>Calls in sequence and the command runner\<close>

lemma writeDhcpNetworkInterfaces_other_files:
  assumes "writeDhcpNetworkInterfaces net h = (r, h')"
    and "path \<noteq> ''/etc/network/interfaces''"
  shows "files h' path = files h path"
  using assms
  by (cases "fs_Glob net ''/sys/class/net/*''")
     (auto simp: writeDhcpNetworkInterfaces_def detectNetworkInterfaces_Inl ConvergeFileContents_def
                 detectNetworkInterfaces_Inr Execute_def
           split: prod.splits sum.splits option.splits if_splits)

lemma ConvergeFileContents_written:
  "ConvergeFileContents net path content h = (Inr written, h') \<Longrightarrow>
     written \<longleftrightarrow> files h path \<noteq> Some content"
  by (auto simp: ConvergeFileContents_def split: option.splits if_splits)

lemma SetupDhcp_twice:
  assumes s1: "writeDhcpNetworkInterfaces net
                 (logger Debug ubuntuNetManagerLogTag ''Configuring DHCP networking'' h) = (None, h1)"
    and s3: "ConvergeFileContents net ''/etc/dhcp/dhclient.conf''
               (ubuntuDHCPConfigTemplate
                  (strings_Join (DNS (fst (DefaultNetworkFor net networks ''dns''))) '', '')) h1 =
             (Inr written, h2)"
    and first: "SetupDhcp net networks errCh h = (r, h')"
    and second: "SetupDhcp net networks errCh' h' = (r', h'')"
  shows "fst (ConvergeFileContents net ''/etc/dhcp/dhclient.conf''
               (ubuntuDHCPConfigTemplate
                  (strings_Join (DNS (fst (DefaultNetworkFor net networks ''dns''))) '', '')) h') =
           Inr False \<and>
         r' = None \<and>
         commands h'' = commands h'"
proof -
  let ?content = "ubuntuDHCPConfigTemplate
                    (strings_Join (DNS (fst (DefaultNetworkFor net networks ''dns''))) '', '')"
  let ?h0' = "logger Debug ubuntuNetManagerLogTag ''Configuring DHCP networking'' h'"
  have f: "files h' = files h2"
    using SetupDhcp_steps(3) [OF s1 s3, of errCh] first by simp
  obtain ps where g: "fs_Glob net ''/sys/class/net/*'' = Inr ps"
    and ci: "fs_ConvergeFailure net ''/etc/network/interfaces'' = None"
    and f1: "files h1 ''/etc/network/interfaces'' =
               Some (ubuntuDhcpNetworkInterfacesTemplate
                       (map filepath_Base (filter (hasDevice net) ps)))"
    using writeDhcpNetworkInterfaces_None [OF s1] by auto
  have cd: "fs_ConvergeFailure net ''/etc/dhcp/dhclient.conf'' = None"
    using ConvergeFileContents_Inr [OF s3] .
  have f2: "files h2 = (files h1)(''/etc/dhcp/dhclient.conf'' \<mapsto> ?content)"
    using ConvergeFileContents_files [OF s3] .
  have fi: "files ?h0' ''/etc/network/interfaces'' =
              Some (ubuntuDhcpNetworkInterfacesTemplate
                      (map filepath_Base (filter (hasDevice net) ps)))"
    using f f2 f1 by (simp add: logger_def)
  have s1': "writeDhcpNetworkInterfaces net ?h0' =
               (None, ?h0'\<lparr>logs := logs ?h0' @ skippedNotes net ps\<rparr>)"
    using writeDhcpNetworkInterfaces_again [OF g ci fi] .
  have fd: "files h' ''/etc/dhcp/dhclient.conf'' = Some ?content"
    using f f2 by simp
  have again: "ConvergeFileContents net ''/etc/dhcp/dhclient.conf'' ?content h' = (Inr False, h')"
    using ConvergeFileContents_again [OF cd fd] .
  have fd': "files (?h0'\<lparr>logs := logs ?h0' @ skippedNotes net ps\<rparr>) ''/etc/dhcp/dhclient.conf'' =
               Some ?content"
    using fd by (simp add: logger_def)
  have s3': "ConvergeFileContents net ''/etc/dhcp/dhclient.conf'' ?content
               (?h0'\<lparr>logs := logs ?h0' @ skippedNotes net ps\<rparr>) =
             (Inr False, ?h0'\<lparr>logs := logs ?h0' @ skippedNotes net ps\<rparr>)"
    using ConvergeFileContents_again [OF cd fd'] .
  have r': "r' = None"
    using SetupDhcp_steps(1) [OF s1' s3', of errCh'] second by simp
  have c': "commands h'' = commands h'"
    using SetupDhcp_steps(2) [OF s1' s3', of errCh'] second by simp
  show ?thesis using again r' c' by simp
qed

lemma macAddressOf_cmdRunner:
  "macAddressOf (net\<lparr>cmdRunner := runner\<rparr>) p = macAddressOf net p"
  by (simp add: macAddressOf_def)

lemma detectMacAddresses_error:
  "snd (detectMacAddresses net) = None \<longleftrightarrow>
     (\<exists>ps. fs_Glob net ''/sys/class/net/*'' = Inr ps \<and>
           (\<forall>p \<in> set ps. macAddressOf net p \<noteq> None))"
  by (cases "fs_Glob net ''/sys/class/net/*''")
     (simp_all add: detectMacAddresses_def detectMacAddresses_range_error)

lemma detectMacAddresses_error_cmdRunner:
  "snd (detectMacAddresses (net\<lparr>cmdRunner := runner\<rparr>)) = None \<longleftrightarrow>
     snd (detectMacAddresses net) = None"
  by (simp add: detectMacAddresses_error macAddressOf_cmdRunner)

lemma SetupDhcp_commands:
  assumes "fst (SetupDhcp net networks errCh h) = None"
  shows "commands (snd (SetupDhcp net networks errCh h)) =
           commands h @
           (if files h ''/etc/dhcp/dhclient.conf'' = Some (dhclientContent net networks)
            then [] else restartCommands)"
proof -
  let ?h0 = "logger Debug ubuntuNetManagerLogTag ''Configuring DHCP networking'' h"
  have ok: "(\<exists>ps. fs_Glob net ''/sys/class/net/*'' = Inr ps) \<and>
            fs_ConvergeFailure net ''/etc/network/interfaces'' = None"
    and cd: "fs_ConvergeFailure net ''/etc/dhcp/dhclient.conf'' = None"
    using assms SetupDhcp_error [of net networks errCh h] by simp_all
  have "fst (writeDhcpNetworkInterfaces net ?h0) = None"
    using ok by (simp add: writeDhcpNetworkInterfaces_error)
  then obtain h1 where s1: "writeDhcpNetworkInterfaces net ?h0 = (None, h1)"
    by (cases "writeDhcpNetworkInterfaces net ?h0") simp
  obtain written h2 where
    s3: "ConvergeFileContents net ''/etc/dhcp/dhclient.conf''
           (ubuntuDHCPConfigTemplate
              (strings_Join (DNS (fst (DefaultNetworkFor net networks ''dns''))) '', '')) h1 =
         (Inr written, h2)"
    using ConvergeFileContents_total [OF cd] by blast
  have "files h1 ''/etc/dhcp/dhclient.conf'' = files ?h0 ''/etc/dhcp/dhclient.conf''"
    using writeDhcpNetworkInterfaces_other_files [OF s1] by simp
  then have "written \<longleftrightarrow>
      files h ''/etc/dhcp/dhclient.conf'' \<noteq> Some (dhclientContent net networks)"
    using ConvergeFileContents_written [OF s3] by (simp add: logger_def dhclientContent_def)
  then show ?thesis
    using SetupDhcp_steps(2) [OF s1 s3, of errCh] by simp
qed

section \<open>Physical interfaces\<close>

text \<open>
  Claim C6. \<open>detectNetworkInterfaces\<close> returns exactly the enumerated entries that
  expose a device descriptor, by their interface names and in enumeration order; every
  entry without a descriptor is skipped, with one informational note each. With two
  interfaces of which only one has a descriptor, it returns exactly that one.
\<close>

theorem detectNetworkInterfaces_keeps_entries_with_device:
  assumes "fs_Glob net ''/sys/class/net/*'' = Inr filePaths"
  shows "fst (detectNetworkInterfaces net h) =
           Inr (map filepath_Base (filter (hasDevice net) filePaths)) \<and>
         logs (snd (detectNetworkInterfaces net h)) = logs h @ skippedNotes net filePaths"
  using assms by (simp add: detectNetworkInterfaces_Inr)

theorem detectNetworkInterfaces_keeps_entries_with_device_witness:
  "fs_Glob example_net ''/sys/class/net/*'' = Inr [''/sys/class/net/eth1'', ''/sys/class/net/lo''] \<and>
   hasDevice example_net ''/sys/class/net/eth1'' \<and>
   \<not> hasDevice example_net ''/sys/class/net/lo'' \<and>
   fst (detectNetworkInterfaces example_net idle) = Inr [''eth1'']"
proof -
  have g: "fs_Glob example_net ''/sys/class/net/*'' =
             Inr [''/sys/class/net/eth1'', ''/sys/class/net/lo'']"
    by (simp add: example_net_def)
  have d1: "hasDevice example_net ''/sys/class/net/eth1''"
    by (simp add: hasDevice_def example_net_def filepath_Clean_def clean_step_def)
  have d2: "\<not> hasDevice example_net ''/sys/class/net/lo''"
    by (simp add: hasDevice_def example_net_def filepath_Clean_def clean_step_def)
  have b: "filepath_Base ''/sys/class/net/eth1'' = ''eth1''"
    by (simp add: filepath_Base_def)
  show ?thesis
    using g d1 d2 b detectNetworkInterfaces_keeps_entries_with_device [OF g, of idle]
    by simp
qed

section \<open>Hardware address inventory\<close>

text \<open>
  Claim C10. When every address can be read, \<open>detectMacAddresses\<close> maps each hardware
  address to the interface enumerated last with that address: a later entry overwrites
  an earlier one with the same address. The inventory therefore never has more entries
  than there are enumerated interfaces, and has fewer when two of them report one
  address.
\<close>

theorem detectMacAddresses_last_entry_wins:
  assumes "fs_Glob net ''/sys/class/net/*'' = Inr filePaths"
    and "\<forall>p \<in> set filePaths. macAddressOf net p \<noteq> None"
  shows "snd (detectMacAddresses net) = None \<and>
         (\<forall>mac. fst (detectMacAddresses net) mac =
                  map_option filepath_Base
                    (find (\<lambda>p. macAddressOf net p = Some mac) (rev filePaths))) \<and>
         card (dom (fst (detectMacAddresses net))) \<le> length filePaths"
proof -
  have all: "takeWhile (\<lambda>p. macAddressOf net p \<noteq> None) filePaths = filePaths"
    using assms(2) by (simp add: takeWhile_eq_all_conv)
  have e: "snd (detectMacAddresses net) = None"
    using assms detectMacAddresses_range_error [of net filePaths Map.empty]
    by (simp add: detectMacAddresses_def)
  have l: "fst (detectMacAddresses net) mac =
             map_option filepath_Base
               (find (\<lambda>p. macAddressOf net p = Some mac) (rev filePaths))" for mac
  proof -
    have "fst (detectMacAddresses net) mac =
            fst (detectMacAddresses_range net filePaths Map.empty) mac"
      using assms(1) by (simp add: detectMacAddresses_def)
    also have "\<dots> =
        (case find (\<lambda>p. macAddressOf net p = Some mac)
                (rev (takeWhile (\<lambda>p. macAddressOf net p \<noteq> None) filePaths)) of
           Some p \<Rightarrow> Some (filepath_Base p)
         | None \<Rightarrow> Map.empty mac)"
      by (rule detectMacAddresses_range_lookup)
    also have "\<dots> =
        map_option filepath_Base (find (\<lambda>p. macAddressOf net p = Some mac) (rev filePaths))"
      unfolding all by (simp split: option.splits)
    finally show ?thesis .
  qed
  show ?thesis
    using e l detectMacAddresses_card(2) [OF assms(1)] by simp
qed

theorem detectMacAddresses_last_entry_wins_witness:
  "fs_Glob cloned_mac_net ''/sys/class/net/*'' =
     Inr [''/sys/class/net/eth1'', ''/sys/class/net/lo''] \<and>
   macAddressOf cloned_mac_net ''/sys/class/net/eth1'' = Some ''aa:bb:cc:dd:ee:ff'' \<and>
   macAddressOf cloned_mac_net ''/sys/class/net/lo'' = Some ''aa:bb:cc:dd:ee:ff'' \<and>
   fst (detectMacAddresses cloned_mac_net) ''aa:bb:cc:dd:ee:ff'' = Some ''lo'' \<and>
   card (dom (fst (detectMacAddresses cloned_mac_net))) = 1 \<and>
   length [''/sys/class/net/eth1'', ''/sys/class/net/lo''] = 2"
proof -
  have g: "fs_Glob cloned_mac_net ''/sys/class/net/*'' =
             Inr [''/sys/class/net/eth1'', ''/sys/class/net/lo'']"
    by (simp add: cloned_mac_net_def example_net_def)
  have m: "macAddressOf cloned_mac_net p = Some ''aa:bb:cc:dd:ee:ff''" for p
    by (simp add: macAddressOf_def cloned_mac_net_def example_net_def strings_Trim_def nl_def
             del: filepath_Join.simps)
  have r: "\<forall>p \<in> set [''/sys/class/net/eth1'', ''/sys/class/net/lo''].
             macAddressOf cloned_mac_net p \<noteq> None"
    using m by simp
  have b: "filepath_Base ''/sys/class/net/lo'' = ''lo''"
    by (simp add: filepath_Base_def)
  note w = detectMacAddresses_last_entry_wins [OF g r]
  have look: "fst (detectMacAddresses cloned_mac_net) mac =
                (if mac = ''aa:bb:cc:dd:ee:ff'' then Some ''lo'' else None)" for mac
    using w m b by auto
  have "dom (fst (detectMacAddresses cloned_mac_net)) = {''aa:bb:cc:dd:ee:ff''}"
    using look by (auto simp: dom_def)
  then have c: "card (dom (fst (detectMacAddresses cloned_mac_net))) = 1"
    by simp
  show ?thesis using g m look c by simp
qed

text \<open>
  Claim C4, as the code has it. \<open>detectMacAddresses\<close> returns an error whenever the
  enumeration fails or the address of an enumerated entry cannot be read. After a
  failed enumeration the map that comes with the error is empty. After a failed read
  the map that comes with the error holds the entries enumerated before the first
  unreadable one (the last of them winning for each address), not no entries.
\<close>

theorem detectMacAddresses_error_and_partial_map:
  "(\<forall>err. fs_Glob net ''/sys/class/net/*'' = Inl err \<longrightarrow>
      detectMacAddresses net =
        (Map.empty, Some (WrapError err ''Getting file list from /sys/class/net''))) \<and>
   (\<forall>filePaths. fs_Glob net ''/sys/class/net/*'' = Inr filePaths \<longrightarrow>
      (snd (detectMacAddresses net) \<noteq> None \<longleftrightarrow>
         (\<exists>p \<in> set filePaths. macAddressOf net p = None)) \<and>
      (\<forall>mac. fst (detectMacAddresses net) mac =
               map_option filepath_Base
                 (find (\<lambda>p. macAddressOf net p = Some mac)
                    (rev (takeWhile (\<lambda>p. macAddressOf net p \<noteq> None) filePaths)))))"
proof (intro conjI allI impI)
  fix err
  assume "fs_Glob net ''/sys/class/net/*'' = Inl err"
  then show "detectMacAddresses net =
               (Map.empty, Some (WrapError err ''Getting file list from /sys/class/net''))"
    by (simp add: detectMacAddresses_def)
next
  fix filePaths
  assume g: "fs_Glob net ''/sys/class/net/*'' = Inr filePaths"
  show "snd (detectMacAddresses net) \<noteq> None \<longleftrightarrow>
          (\<exists>p \<in> set filePaths. macAddressOf net p = None)"
    using g detectMacAddresses_range_error [of net filePaths Map.empty]
    by (simp add: detectMacAddresses_def)
next
  fix filePaths mac
  assume g: "fs_Glob net ''/sys/class/net/*'' = Inr filePaths"
  show "fst (detectMacAddresses net) mac =
          map_option filepath_Base
            (find (\<lambda>p. macAddressOf net p = Some mac)
               (rev (takeWhile (\<lambda>p. macAddressOf net p \<noteq> None) filePaths)))"
  proof -
    have "fst (detectMacAddresses net) mac =
            fst (detectMacAddresses_range net filePaths Map.empty) mac"
      using g by (simp add: detectMacAddresses_def)
    also have "\<dots> =
        (case find (\<lambda>p. macAddressOf net p = Some mac)
                (rev (takeWhile (\<lambda>p. macAddressOf net p \<noteq> None) filePaths)) of
           Some p \<Rightarrow> Some (filepath_Base p)
         | None \<Rightarrow> Map.empty mac)"
      by (rule detectMacAddresses_range_lookup)
    also have "\<dots> =
        map_option filepath_Base
          (find (\<lambda>p. macAddressOf net p = Some mac)
             (rev (takeWhile (\<lambda>p. macAddressOf net p \<noteq> None) filePaths)))"
      by (simp split: option.splits)
    finally show ?thesis .
  qed
qed

theorem detectMacAddresses_error_and_partial_map_witness:
  "fs_Glob failing_glob_net ''/sys/class/net/*'' = Inl (NewError ''glob failed'') \<and>
   detectMacAddresses failing_glob_net =
     (Map.empty,
      Some (WrapError (NewError ''glob failed'') ''Getting file list from /sys/class/net'')) \<and>
   fs_Glob unreadable_lo_net ''/sys/class/net/*'' =
     Inr [''/sys/class/net/eth1'', ''/sys/class/net/lo''] \<and>
   macAddressOf unreadable_lo_net ''/sys/class/net/eth1'' = Some ''aa:bb:cc:dd:ee:ff'' \<and>
   macAddressOf unreadable_lo_net ''/sys/class/net/lo'' = None \<and>
   snd (detectMacAddresses unreadable_lo_net) \<noteq> None \<and>
   fst (detectMacAddresses unreadable_lo_net) ''aa:bb:cc:dd:ee:ff'' = Some ''eth1''"
proof -
  have g1: "fs_Glob failing_glob_net ''/sys/class/net/*'' = Inl (NewError ''glob failed'')"
    by (simp add: failing_glob_net_def example_net_def)
  have g2: "fs_Glob unreadable_lo_net ''/sys/class/net/*'' =
              Inr [''/sys/class/net/eth1'', ''/sys/class/net/lo'']"
    by (simp add: unreadable_lo_net_def example_net_def)
  have m1: "macAddressOf unreadable_lo_net ''/sys/class/net/eth1'' = Some ''aa:bb:cc:dd:ee:ff''"
    by (simp add: macAddressOf_def unreadable_lo_net_def example_net_def strings_Trim_def nl_def
                  filepath_Clean_def clean_step_def)
  have m2: "macAddressOf unreadable_lo_net ''/sys/class/net/lo'' = None"
    by (simp add: macAddressOf_def unreadable_lo_net_def example_net_def
                  filepath_Clean_def clean_step_def)
  have b: "filepath_Base ''/sys/class/net/eth1'' = ''eth1''"
    by (simp add: filepath_Base_def)
  show ?thesis
    using g1 g2 m1 m2 b
      detectMacAddresses_error_and_partial_map [of failing_glob_net]
      detectMacAddresses_error_and_partial_map [of unreadable_lo_net]
    by simp
qed

text \<open>
  Claim C4 as the specification states it does not hold: on this host the second read
  fails, and the map returned with the error holds the first interface.
\<close>

theorem detectMacAddresses_partial_map_counterexample:
  "snd (detectMacAddresses unreadable_lo_net) \<noteq> None \<and>
   fst (detectMacAddresses unreadable_lo_net) ''aa:bb:cc:dd:ee:ff'' = Some ''eth1'' \<and>
   fst (detectMacAddresses unreadable_lo_net) \<noteq> Map.empty"
proof -
  have "detectMacAddresses unreadable_lo_net =
          (Map.empty(''aa:bb:cc:dd:ee:ff'' \<mapsto> ''eth1''),
           Some (WrapError (NewError ''read failed'') ''Reading mac address from file''))"
    by (simp add: detectMacAddresses_def unreadable_lo_net_def example_net_def strings_Trim_def
                  nl_def filepath_Clean_def clean_step_def filepath_Base_def)
  then show ?thesis by (auto dest: fun_cong)
qed

section \<open>Restart decision of the DHCP setup\<close>

text \<open>
  Claim C3. When the DHCP interfaces file has been converged, \<open>SetupDhcp\<close> runs the
  restart commands (the version probe, \<open>ifdown\<close> and \<open>ifup\<close>) if and only if the
  converge-write of \<open>/etc/dhcp/dhclient.conf\<close> reports a change, that is, if and only
  if the file did not already hold the rendered content; what the converge of
  \<open>/etc/network/interfaces\<close> reported plays no part. After the call the same content
  converges without a change, and a second call succeeds and runs no command.
\<close>

theorem SetupDhcp_restarts_iff_dhclient_changed:
  assumes "fst (writeDhcpNetworkInterfaces net
                  (logger Debug ubuntuNetManagerLogTag ''Configuring DHCP networking'' h)) = None"
    and "fst (ConvergeFileContents net ''/etc/dhcp/dhclient.conf'' (dhclientContent net networks)
                (snd (writeDhcpNetworkInterfaces net
                        (logger Debug ubuntuNetManagerLogTag ''Configuring DHCP networking'' h)))) =
           Inr written"
  shows "fst (SetupDhcp net networks errCh h) = None \<and>
         commands (snd (SetupDhcp net networks errCh h)) =
           commands h @ (if written then restartCommands else []) \<and>
         (written \<longleftrightarrow>
            files h ''/etc/dhcp/dhclient.conf'' \<noteq> Some (dhclientContent net networks)) \<and>
         fst (ConvergeFileContents net ''/etc/dhcp/dhclient.conf'' (dhclientContent net networks)
                (snd (SetupDhcp net networks errCh h))) = Inr False \<and>
         fst (SetupDhcp net networks errCh' (snd (SetupDhcp net networks errCh h))) = None \<and>
         commands (snd (SetupDhcp net networks errCh' (snd (SetupDhcp net networks errCh h)))) =
           commands (snd (SetupDhcp net networks errCh h))"
proof -
  let ?h0 = "logger Debug ubuntuNetManagerLogTag ''Configuring DHCP networking'' h"
  obtain h1 where s1: "writeDhcpNetworkInterfaces net ?h0 = (None, h1)"
    using assms(1) by (cases "writeDhcpNetworkInterfaces net ?h0") simp
  obtain h2 where s3: "ConvergeFileContents net ''/etc/dhcp/dhclient.conf''
               (ubuntuDHCPConfigTemplate
                  (strings_Join (DNS (fst (DefaultNetworkFor net networks ''dns''))) '', '')) h1 =
             (Inr written, h2)"
    using assms(2) s1
    by (cases "ConvergeFileContents net ''/etc/dhcp/dhclient.conf''
                 (dhclientContent net networks) h1")
       (simp add: dhclientContent_def)
  obtain r h' where first: "SetupDhcp net networks errCh h = (r, h')"
    by (cases "SetupDhcp net networks errCh h")
  obtain r' h'' where second: "SetupDhcp net networks errCh' h' = (r', h'')"
    by (cases "SetupDhcp net networks errCh' h'")
  have "files h1 ''/etc/dhcp/dhclient.conf'' = files ?h0 ''/etc/dhcp/dhclient.conf''"
    using writeDhcpNetworkInterfaces_other_files [OF s1] by simp
  then have w: "written \<longleftrightarrow>
      files h ''/etc/dhcp/dhclient.conf'' \<noteq> Some (dhclientContent net networks)"
    using ConvergeFileContents_written [OF s3] by (simp add: logger_def dhclientContent_def)
  show ?thesis
    using SetupDhcp_steps(1,2) [OF s1 s3, of errCh] SetupDhcp_twice [OF s1 s3 first second]
      first second w
    by (simp add: dhclientContent_def)
qed

theorem SetupDhcp_restarts_iff_dhclient_changed_witness:
  "fst (writeDhcpNetworkInterfaces example_net
          (logger Debug ubuntuNetManagerLogTag ''Configuring DHCP networking'' idle)) = None \<and>
   fst (ConvergeFileContents example_net ''/etc/dhcp/dhclient.conf''
          (dhclientContent example_net [(''default'', static_network)])
          (snd (writeDhcpNetworkInterfaces example_net
                  (logger Debug ubuntuNetManagerLogTag ''Configuring DHCP networking'' idle)))) =
     Inr True \<and>
   fst (SetupDhcp example_net [(''default'', static_network)] None idle) = None \<and>
   commands (snd (SetupDhcp example_net [(''default'', static_network)] None idle)) =
     [(''ifup'', [''--version'']),
      (''ifdown'', [''-a'', ''--no-loopback'']),
      (''ifup'', [''-a'', ''--no-loopback''])] \<and>
   commands (snd (SetupDhcp example_net [(''default'', static_network)] None
                    (snd (SetupDhcp example_net [(''default'', static_network)] None idle)))) =
     [(''ifup'', [''--version'']),
      (''ifdown'', [''-a'', ''--no-loopback'']),
      (''ifup'', [''-a'', ''--no-loopback''])]"
proof -
  let ?h0 = "logger Debug ubuntuNetManagerLogTag ''Configuring DHCP networking'' idle"
  have a: "fst (writeDhcpNetworkInterfaces example_net ?h0) = None"
    by (simp add: writeDhcpNetworkInterfaces_error example_net_def)
  have "files (snd (writeDhcpNetworkInterfaces example_net ?h0)) ''/etc/dhcp/dhclient.conf'' =
          files ?h0 ''/etc/dhcp/dhclient.conf''"
    using writeDhcpNetworkInterfaces_other_files
            [of example_net ?h0 "fst (writeDhcpNetworkInterfaces example_net ?h0)"
                "snd (writeDhcpNetworkInterfaces example_net ?h0)" "''/etc/dhcp/dhclient.conf''"]
    by simp
  then have "files (snd (writeDhcpNetworkInterfaces example_net ?h0)) ''/etc/dhcp/dhclient.conf'' =
          None"
    by (simp add: logger_def idle_def)
  then have b: "fst (ConvergeFileContents example_net ''/etc/dhcp/dhclient.conf''
          (dhclientContent example_net [(''default'', static_network)])
          (snd (writeDhcpNetworkInterfaces example_net ?h0))) = Inr True"
    by (simp add: ConvergeFileContents_def example_net_def)
  show ?thesis
    using a b
      SetupDhcp_restarts_iff_dhclient_changed
        [OF a b, of None None]
    by (simp add: restartCommands_def idle_def)
qed

section \<open>Failures of restart commands\<close>

text \<open>
  Claim C7. Whatever the command runner answers for \<open>ifup\<close>, \<open>ifdown\<close> and the
  per-interface \<open>service\<close> stop and start, also when every command fails, \<open>SetupDhcp\<close>
  and \<open>SetupManualNetworking\<close> return no error once detection, rendering and the
  convergence of the files have succeeded.
\<close>

theorem restart_command_failures_are_ignored:
  "(fst (writeDhcpNetworkInterfaces net h) = None \<and>
    fs_ConvergeFailure net ''/etc/dhcp/dhclient.conf'' = None \<longrightarrow>
      fst (SetupDhcp (net\<lparr>cmdRunner := runner\<rparr>) networks errCh h) = None) \<and>
   (snd (snd (fst (writeNetworkInterfaces net networks h))) = None \<longrightarrow>
      fst (SetupManualNetworking (net\<lparr>cmdRunner := runner\<rparr>) networks errCh h) = None)"
proof (intro conjI impI)
  assume "fst (writeDhcpNetworkInterfaces net h) = None \<and>
          fs_ConvergeFailure net ''/etc/dhcp/dhclient.conf'' = None"
  then show "fst (SetupDhcp (net\<lparr>cmdRunner := runner\<rparr>) networks errCh h) = None"
    by (simp add: SetupDhcp_error writeDhcpNetworkInterfaces_error)
next
  assume "snd (snd (fst (writeNetworkInterfaces net networks h))) = None"
  then show "fst (SetupManualNetworking (net\<lparr>cmdRunner := runner\<rparr>) networks errCh h) = None"
    by (simp add: SetupManualNetworking_error writeNetworkInterfaces_error
                  detectMacAddresses_error_cmdRunner)
qed

theorem restart_command_failures_are_ignored_witness:
  "fst (writeDhcpNetworkInterfaces example_net idle) = None \<and>
   fs_ConvergeFailure example_net ''/etc/dhcp/dhclient.conf'' = None \<and>
   snd (snd (fst (writeNetworkInterfaces example_net [(''default'', static_network)] idle))) = None \<and>
   snd (snd (snd (cmdRunner failing_commands_net ''ifdown'' [''-a'', ''--no-loopback'']))) =
     Some (NewError ''exit status 1'') \<and>
   fst (SetupDhcp failing_commands_net [(''default'', static_network)] None idle) = None \<and>
   fst (SetupManualNetworking failing_commands_net [(''default'', static_network)] None idle) = None \<and>
   commands (snd (SetupDhcp failing_commands_net [(''default'', static_network)] None idle)) =
     [(''ifup'', [''--version'']),
      (''ifdown'', [''-a'', ''--no-loopback'']),
      (''ifup'', [''-a'', ''--no-loopback''])]"
proof -
  have a: "fst (writeDhcpNetworkInterfaces example_net idle) = None"
    by (simp add: writeDhcpNetworkInterfaces_error example_net_def)
  have b: "fs_ConvergeFailure example_net ''/etc/dhcp/dhclient.conf'' = None"
    by (simp add: example_net_def)
  have m1: "macAddressOf example_net ''/sys/class/net/eth1'' \<noteq> None"
    by (simp add: macAddressOf_def example_net_def filepath_Clean_def clean_step_def)
  have m2: "macAddressOf example_net ''/sys/class/net/lo'' \<noteq> None"
    by (simp add: macAddressOf_def example_net_def filepath_Clean_def clean_step_def)
  have d: "snd (detectMacAddresses example_net) = None"
    using m1 m2 by (simp add: detectMacAddresses_error) (simp add: example_net_def)
  have c: "snd (snd (fst (writeNetworkInterfaces example_net [(''default'', static_network)] idle))) =
             None"
    using d by (simp add: writeNetworkInterfaces_error) (simp add: example_net_def static_network_def)
  have f: "snd (snd (snd (cmdRunner failing_commands_net ''ifdown'' [''-a'', ''--no-loopback'']))) =
             Some (NewError ''exit status 1'')"
    by (simp add: failing_commands_net_def)
  note w = restart_command_failures_are_ignored
        [of example_net idle "\<lambda>name args. ([], ''failed'', 1, Some (NewError ''exit status 1''))"
            "[(''default'', static_network)]" None]
  have ok: "fst (SetupDhcp failing_commands_net [(''default'', static_network)] None idle) = None"
    using a b w by (simp add: failing_commands_net_def)
  have run: "commands (snd (SetupDhcp failing_commands_net [(''default'', static_network)] None idle)) =
               restartCommands"
    using SetupDhcp_commands [OF ok] by (simp add: idle_def)
  show ?thesis
    using a b c f w run
    by (simp add: failing_commands_net_def restartCommands_def)
qed

section \<open>Fatal errors\<close>



section \<open>Binding networks to interfaces\<close>

lemma networkBlock_staticStanza:
  "networkBlock n =
     [nl] @
     staticStanza (Interface n) (IP (Network n)) (NetworkIP n) (Netmask (Network n)) (Broadcast n) @
     (if HasDefaultGateway n then ''    gateway '' @ Gateway (Network n) else [])"
  by (simp add: networkBlock_def staticStanza_def)

lemma append_singleton: "(@) [c] = (#) c"
  by (rule ext) simp

lemma staticContent_contains_stanza:
  assumes "n \<in> set res"
  shows "strings_Contains (staticContent net networks res)
           (staticStanza (Interface n) (IP (Network n)) (NetworkIP n) (Netmask (Network n))
              (Broadcast n))"
proof -
  obtain a b where ab: "concat (map networkBlock res) = a @ networkBlock n @ b"
    using concat_map_middle [OF assms] by blast
  let ?stanza = "staticStanza (Interface n) (IP (Network n)) (NetworkIP n) (Netmask (Network n))
                   (Broadcast n)"
  let ?header = "''# Generated by bosh-agent'' @ [nl] @ ''auto lo'' @ [nl] @
                 ''iface lo inet loopback'' @ [nl]"
  let ?gateway = "if HasDefaultGateway n then ''    gateway '' @ Gateway (Network n) else []"
  let ?dns = "[nl] @ ''dns-nameservers'' @
              concat (map (\<lambda>d. '' '' @ d) (DNS (fst (DefaultNetworkFor net networks ''dns''))))"
  have "staticContent net networks res =
          (?header @ a @ [nl]) @ ?stanza @ (?gateway @ b @ ?dns)"
    by (simp add: staticContent_def networkInterfacesTemplate_def ab networkBlock_staticStanza
                  append_singleton)
  then show ?thesis by (simp only: strings_Contains_middle)
qed

lemma writeNetworkInterfaces_success:
  assumes det: "detectMacAddresses net = (macAddresses, None)"
    and calc: "\<forall>(name, aNet) \<in> set networks.
                 \<exists>nb. CalculateNetworkAndBroadcast net (IP aNet) (Netmask aNet) = Inr nb"
    and conv: "fs_ConvergeFailure net ''/etc/network/interfaces'' = None"
  shows "\<exists>res written h'.
           writeNetworkInterfaces net networks h = ((res, written, None), h') \<and>
           list_all2 (resolves net macAddresses) networks res \<and>
           files h' = (files h)(''/etc/network/interfaces'' \<mapsto> staticContent net networks res)"
proof -
  obtain res e where r: "writeNetworkInterfaces_range net macAddresses networks [] = (res, e)"
    by (cases "writeNetworkInterfaces_range net macAddresses networks []")
  have "e = None"
    using writeNetworkInterfaces_range_error [of net macAddresses networks "[]"] r calc by simp
  then have r': "writeNetworkInterfaces_range net macAddresses networks [] = (res, None)"
    using r by simp
  have all: "list_all2 (resolves net macAddresses) networks res"
    using writeNetworkInterfaces_range_None [OF r'] by simp
  obtain written h' where c: "ConvergeFileContents net ''/etc/network/interfaces''
                                (staticContent net networks res) h = (Inr written, h')"
    using ConvergeFileContents_total [OF conv] by blast
  have "writeNetworkInterfaces net networks h = ((res, written, None), h')"
    using det r' c by (simp add: writeNetworkInterfaces_rendered)
  then show ?thesis
    using all ConvergeFileContents_files [OF c] by blast
qed

lemma writeNetworkInterfaces_networks_any_host:
  "fst (fst (writeNetworkInterfaces net networks h)) =
     fst (fst (writeNetworkInterfaces net networks h'))"
proof -
  obtain m e where d: "detectMacAddresses net = (m, e)"
    by (cases "detectMacAddresses net")
  show ?thesis
  proof (cases e)
    case (Some err)
    then show ?thesis using d by (simp add: writeNetworkInterfaces_detect_failed)
  next
    case None
    obtain res e2 where r: "writeNetworkInterfaces_range net m networks [] = (res, e2)"
      by (cases "writeNetworkInterfaces_range net m networks []")
    show ?thesis
    proof (cases e2)
      case (Some err)
      then show ?thesis using d None r by (simp add: writeNetworkInterfaces_range_failed)
    next
      case n2: None
      show ?thesis
        using d None r n2
        by (simp add: writeNetworkInterfaces_rendered case_prod_beta split: sum.splits)
    qed
  qed
qed

lemma SetupManualNetworking_files:
  "files (snd (SetupManualNetworking net networks errCh h)) =
     files (snd (writeNetworkInterfaces net networks
                   (logger Debug ubuntuNetManagerLogTag ''Configuring manual networking'' h)))"
proof -
  let ?h0 = "logger Debug ubuntuNetManagerLogTag ''Configuring manual networking'' h"
  obtain res written e h1 where w: "writeNetworkInterfaces net networks ?h0 = ((res, written, e), h1)"
    by (cases "writeNetworkInterfaces net networks ?h0") auto
  show ?thesis
    using w
    by (cases e)
       (simp_all add: SetupManualNetworking_def Let_def go_def restartNetworkingInterfaces_frame)
qed

text \<open>
  Claim C9. When the inventory is detected, the addresses are computed and the file is
  converged, \<open>SetupManualNetworking\<close> succeeds, and \<open>writeNetworkInterfaces\<close>, which
  it calls, gives every desired network, in order, the interface name the inventory
  holds for its MAC, and the empty name when the inventory has no entry for it. The
  static interfaces file then contains the stanza of every network under that name, so
  also the stanza with an empty name of an unmatched network.
\<close>

theorem writeNetworkInterfaces_resolves_interface_by_mac:
  assumes "detectMacAddresses net = (macAddresses, None)"
    and "\<forall>(name, aNet) \<in> set networks.
           \<exists>nb. CalculateNetworkAndBroadcast net (IP aNet) (Netmask aNet) = Inr nb"
    and "fs_ConvergeFailure net ''/etc/network/interfaces'' = None"
  shows "fst (SetupManualNetworking net networks errCh h) = None \<and>
         map Interface (fst (fst (writeNetworkInterfaces net networks h))) =
           map (\<lambda>(name, aNet). case macAddresses (Mac aNet) of None \<Rightarrow> [] | Some i \<Rightarrow> i)
             networks \<and>
         (\<exists>content.
            files (snd (SetupManualNetworking net networks errCh h)) ''/etc/network/interfaces'' =
              Some content \<and>
            (\<forall>(name, aNet) \<in> set networks. \<forall>network broadcast.
               CalculateNetworkAndBroadcast net (IP aNet) (Netmask aNet) =
                 Inr (network, broadcast) \<longrightarrow>
               strings_Contains content
                 (staticStanza (case macAddresses (Mac aNet) of None \<Rightarrow> [] | Some i \<Rightarrow> i)
                    (IP aNet) network (Netmask aNet) broadcast)))"
proof -
  let ?h0 = "logger Debug ubuntuNetManagerLogTag ''Configuring manual networking'' h"
  obtain res written h' where
    w: "writeNetworkInterfaces net networks ?h0 = ((res, written, None), h')"
    and all: "list_all2 (resolves net macAddresses) networks res"
    and f: "files h' =
              (files ?h0)(''/etc/network/interfaces'' \<mapsto> staticContent net networks res)"
    using writeNetworkInterfaces_success [OF assms] by blast
  have names: "map Interface res =
      map (\<lambda>(name, aNet). case macAddresses (Mac aNet) of None \<Rightarrow> [] | Some i \<Rightarrow> i) networks"
    using all by (induction rule: list_all2_induct) (auto simp: resolves_def)
  have stanza: "strings_Contains (staticContent net networks res)
                  (staticStanza (case macAddresses (Mac aNet) of None \<Rightarrow> [] | Some i \<Rightarrow> i)
                     (IP aNet) network (Netmask aNet) broadcast)"
    if e: "(name, aNet) \<in> set networks"
      and c: "CalculateNetworkAndBroadcast net (IP aNet) (Netmask aNet) = Inr (network, broadcast)"
    for name aNet network broadcast
  proof -
    obtain i where i: "i < length networks" and ni: "networks ! i = (name, aNet)"
      using e by (auto simp: in_set_conv_nth)
    have len: "length networks = length res"
      using all by (rule list_all2_lengthD)
    define n where "n = res ! i"
    have n: "n \<in> set res"
      using i len by (simp add: n_def)
    have r: "resolves net macAddresses (name, aNet) n"
      using list_all2_nthD [OF all i] ni by (simp add: n_def)
    have "staticStanza (Interface n) (IP (Network n)) (NetworkIP n) (Netmask (Network n))
            (Broadcast n) =
          staticStanza (case macAddresses (Mac aNet) of None \<Rightarrow> [] | Some i \<Rightarrow> i)
            (IP aNet) network (Netmask aNet) broadcast"
      using r c by (simp add: resolves_def)
    then show ?thesis
      using staticContent_contains_stanza [OF n, of net networks] by simp
  qed
  have content: "files (snd (SetupManualNetworking net networks errCh h))
                   ''/etc/network/interfaces'' = Some (staticContent net networks res)"
    using w f by (simp add: SetupManualNetworking_files)
  have every: "\<forall>(name, aNet) \<in> set networks. \<forall>network broadcast.
               CalculateNetworkAndBroadcast net (IP aNet) (Netmask aNet) =
                 Inr (network, broadcast) \<longrightarrow>
               strings_Contains (staticContent net networks res)
                 (staticStanza (case macAddresses (Mac aNet) of None \<Rightarrow> [] | Some i \<Rightarrow> i)
                    (IP aNet) network (Netmask aNet) broadcast)"
    using stanza by blast
  have "snd (snd (fst (writeNetworkInterfaces net networks ?h0))) = None"
    using w by simp
  then have e: "fst (SetupManualNetworking net networks errCh h) = None"
    by (simp add: SetupManualNetworking_error writeNetworkInterfaces_error)
  have "fst (fst (writeNetworkInterfaces net networks h)) = res"
    using w writeNetworkInterfaces_networks_any_host [of net networks h ?h0] by simp
  then have m: "map Interface (fst (fst (writeNetworkInterfaces net networks h))) =
           map (\<lambda>(name, aNet). case macAddresses (Mac aNet) of None \<Rightarrow> [] | Some i \<Rightarrow> i)
             networks"
    using names by simp
  show ?thesis
    using e m content every by blast
qed

theorem writeNetworkInterfaces_resolves_interface_by_mac_witness:
  "detectMacAddresses example_net =
     ([''aa:bb:cc:dd:ee:ff'' \<mapsto> ''eth1'', ''00:00:00:00:00:00'' \<mapsto> ''lo''], None) \<and>
   CalculateNetworkAndBroadcast example_net (IP static_network) (Netmask static_network) =
     Inr (''10.0.0.0'', ''10.0.0.255'') \<and>
   CalculateNetworkAndBroadcast example_net (IP bare_network) (Netmask bare_network) =
     Inr (''10.0.0.0'', ''10.0.0.255'') \<and>
   fs_ConvergeFailure example_net ''/etc/network/interfaces'' = None \<and>
   fst (SetupManualNetworking example_net
          [(''default'', static_network), (''private'', bare_network)] None idle) = None \<and>
   map Interface
     (fst (fst (writeNetworkInterfaces example_net
                  [(''default'', static_network), (''private'', bare_network)] idle))) =
     [''eth1'', []] \<and>
   (\<exists>content.
      files (snd (SetupManualNetworking example_net
                    [(''default'', static_network), (''private'', bare_network)] None idle))
        ''/etc/network/interfaces'' = Some content \<and>
      strings_Contains content
        (staticStanza [] ''10.0.0.5'' ''10.0.0.0'' ''255.255.255.0'' ''10.0.0.255''))"
proof -
  let ?nets = "[(''default'', static_network), (''private'', bare_network)]"
  let ?m = "[''aa:bb:cc:dd:ee:ff'' \<mapsto> ''eth1'', ''00:00:00:00:00:00'' \<mapsto> ''lo'']"
  have det: "detectMacAddresses example_net = (?m, None)"
    by (simp add: detectMacAddresses_def example_net_def strings_Trim_def nl_def
                  filepath_Clean_def clean_step_def filepath_Base_def)
  have c1: "CalculateNetworkAndBroadcast example_net (IP static_network) (Netmask static_network) =
              Inr (''10.0.0.0'', ''10.0.0.255'')"
    by (simp add: example_net_def static_network_def)
  have c2: "CalculateNetworkAndBroadcast example_net (IP bare_network) (Netmask bare_network) =
              Inr (''10.0.0.0'', ''10.0.0.255'')"
    by (simp add: example_net_def bare_network_def)
  have calc: "\<forall>(name, aNet) \<in> set ?nets.
                \<exists>nb. CalculateNetworkAndBroadcast example_net (IP aNet) (Netmask aNet) = Inr nb"
    using c1 c2 by simp
  have conv: "fs_ConvergeFailure example_net ''/etc/network/interfaces'' = None"
    by (simp add: example_net_def)
  have m1: "?m (Mac static_network) = Some ''eth1''"
    by (simp add: static_network_def)
  have m2: "?m (Mac bare_network) = None"
    by (simp add: bare_network_def)
  have i2: "IP bare_network = ''10.0.0.5''" and n2: "Netmask bare_network = ''255.255.255.0''"
    by (simp_all add: bare_network_def)
  note w = writeNetworkInterfaces_resolves_interface_by_mac [OF det calc conv, of None idle]
  have names: "map Interface (fst (fst (writeNetworkInterfaces example_net ?nets idle))) =
                 [''eth1'', []]"
    using w m1 m2 by simp
  obtain content where
    f: "files (snd (SetupManualNetworking example_net ?nets None idle))
          ''/etc/network/interfaces'' = Some content"
    and s: "\<forall>(name, aNet) \<in> set ?nets. \<forall>network broadcast.
               CalculateNetworkAndBroadcast example_net (IP aNet) (Netmask aNet) =
                 Inr (network, broadcast) \<longrightarrow>
               strings_Contains content
                 (staticStanza (case ?m (Mac aNet) of None \<Rightarrow> [] | Some i \<Rightarrow> i)
                    (IP aNet) network (Netmask aNet) broadcast)"
    using w by blast
  have "strings_Contains content
          (staticStanza (case ?m (Mac bare_network) of None \<Rightarrow> [] | Some i \<Rightarrow> i)
             (IP bare_network) ''10.0.0.0'' (Netmask bare_network) ''10.0.0.255'')"
    using s c2 by simp
  then have "strings_Contains content
          (staticStanza [] ''10.0.0.5'' ''10.0.0.0'' ''255.255.255.0'' ''10.0.0.255'')"
    by (simp only: m2 i2 n2 option.case)
  then show ?thesis
    using det c1 c2 conv w names f by blast
qed

section \<open>DNS servers in the rendered files\<close>

lemma ubuntuDHCPConfigTemplate_prepend:
  "dot \<noteq> [] \<Longrightarrow>
     ubuntuDHCPConfigTemplate dot =
       butlast (ubuntuDHCPConfigTemplate []) @ [nl] @
       ''prepend domain-name-servers '' @ dot @ '';'' @ [nl]"
  by (simp add: ubuntuDHCPConfigTemplate_def)

lemma SetupDhcp_file:
  assumes "fst (SetupDhcp net networks errCh h) = None"
  shows "files (snd (SetupDhcp net networks errCh h)) ''/etc/dhcp/dhclient.conf'' =
           Some (dhclientContent net networks)"
proof -
  let ?h0 = "logger Debug ubuntuNetManagerLogTag ''Configuring DHCP networking'' h"
  have ok: "(\<exists>ps. fs_Glob net ''/sys/class/net/*'' = Inr ps) \<and>
            fs_ConvergeFailure net ''/etc/network/interfaces'' = None"
    and cd: "fs_ConvergeFailure net ''/etc/dhcp/dhclient.conf'' = None"
    using assms SetupDhcp_error [of net networks errCh h] by simp_all
  have "fst (writeDhcpNetworkInterfaces net ?h0) = None"
    using ok by (simp add: writeDhcpNetworkInterfaces_error)
  then obtain h1 where s1: "writeDhcpNetworkInterfaces net ?h0 = (None, h1)"
    by (cases "writeDhcpNetworkInterfaces net ?h0") simp
  obtain written h2 where
    s3: "ConvergeFileContents net ''/etc/dhcp/dhclient.conf''
           (ubuntuDHCPConfigTemplate
              (strings_Join (DNS (fst (DefaultNetworkFor net networks ''dns''))) '', '')) h1 =
         (Inr written, h2)"
    using ConvergeFileContents_total [OF cd] by blast
  show ?thesis
    using SetupDhcp_steps(3) [OF s1 s3, of errCh] ConvergeFileContents_files [OF s3]
    by (simp add: dhclientContent_def)
qed

lemma writeNetworkInterfaces_file:
  assumes "snd (snd (fst (writeNetworkInterfaces net networks h))) = None"
  shows "files (snd (writeNetworkInterfaces net networks h)) ''/etc/network/interfaces'' =
           Some (staticContent net networks (fst (fst (writeNetworkInterfaces net networks h))))"
proof -
  have d: "detectMacAddresses net = (fst (detectMacAddresses net), None)"
    and calc: "\<forall>(name, aNet) \<in> set networks.
                 \<exists>nb. CalculateNetworkAndBroadcast net (IP aNet) (Netmask aNet) = Inr nb"
    and conv: "fs_ConvergeFailure net ''/etc/network/interfaces'' = None"
    using assms writeNetworkInterfaces_error [of net networks h]
    by (simp_all add: prod_eq_iff)
  obtain res written h' where
    "writeNetworkInterfaces net networks h = ((res, written, None), h')"
    and "files h' = (files h)(''/etc/network/interfaces'' \<mapsto> staticContent net networks res)"
    using writeNetworkInterfaces_success [OF d calc conv] by blast
  then show ?thesis by simp
qed

lemma staticContent_dns_line:
  "staticContent net networks res =
     networkInterfacesTemplate \<lparr>Networks = res, HasDNSNameServers = False, DNSServers = []\<rparr> @
     ''dns-nameservers'' @
     concat (map (\<lambda>d. '' '' @ d) (DNS (fst (DefaultNetworkFor net networks ''dns''))))"
  by (simp add: staticContent_def networkInterfacesTemplate_def append_singleton)

lemma writeResolvConf_file:
  assumes "fst (writeResolvConf net networks h) = None"
  shows "files (snd (writeResolvConf net networks h)) ''/etc/resolv.conf'' =
           Some (ubuntuResolvConfTemplate
                   \<lparr>dnsServers = DNS (fst (DefaultNetworkFor net networks ''dns''))\<rparr>)"
  using assms
  by (auto simp: writeResolvConf_def Execute_def WriteFile_def Let_def case_prod_beta
           split: option.splits)

text \<open>
  Claim C5. The DNS servers \<open>d1, ..., dn\<close> of the DNS network appear in every rendered
  file that lists them in the given order, each once per occurrence in the list: the
  DHCP client directive file is the file without DNS servers with the one directive
  \<open>prepend domain-name-servers d1, ..., dn;\<close> added (whenever the joined list is not
  empty), the static interfaces file ends with the line \<open>dns-nameservers d1 ... dn\<close>,
  and the resolver file has the lines \<open>nameserver d1\<close> to \<open>nameserver dn\<close>.
\<close>

theorem dns_servers_rendered_in_given_order:
  assumes "DNS (fst (DefaultNetworkFor net networks ''dns'')) = dns"
  shows "(fst (SetupDhcp net networks errCh h) = None \<and> strings_Join dns '', '' \<noteq> [] \<longrightarrow>
            files (snd (SetupDhcp net networks errCh h)) ''/etc/dhcp/dhclient.conf'' =
              Some (butlast (ubuntuDHCPConfigTemplate []) @ [nl] @
                    ''prepend domain-name-servers '' @ strings_Join dns '', '' @ '';'' @ [nl])) \<and>
         (snd (snd (fst (writeNetworkInterfaces net networks h))) = None \<longrightarrow>
            files (snd (writeNetworkInterfaces net networks h)) ''/etc/network/interfaces'' =
              Some (networkInterfacesTemplate
                      \<lparr>Networks = fst (fst (writeNetworkInterfaces net networks h)),
                       HasDNSNameServers = False, DNSServers = []\<rparr> @
                    ''dns-nameservers'' @ concat (map (\<lambda>d. '' '' @ d) dns))) \<and>
         (fst (writeResolvConf net networks h) = None \<longrightarrow>
            files (snd (writeResolvConf net networks h)) ''/etc/resolv.conf'' =
              Some (''# Generated by bosh-agent'' @ [nl] @
                    concat (map (\<lambda>d. ''nameserver '' @ d @ [nl]) dns)))"
proof -
  have A: "fst (SetupDhcp net networks errCh h) = None \<and> strings_Join dns '', '' \<noteq> [] \<longrightarrow>
            files (snd (SetupDhcp net networks errCh h)) ''/etc/dhcp/dhclient.conf'' =
              Some (butlast (ubuntuDHCPConfigTemplate []) @ [nl] @
                    ''prepend domain-name-servers '' @ strings_Join dns '', '' @ '';'' @ [nl])"
  proof (rule impI)
    assume a: "fst (SetupDhcp net networks errCh h) = None \<and> strings_Join dns '', '' \<noteq> []"
    then have "dhclientContent net networks =
                 butlast (ubuntuDHCPConfigTemplate []) @ [nl] @
                 ''prepend domain-name-servers '' @ strings_Join dns '', '' @ '';'' @ [nl]"
      using assms ubuntuDHCPConfigTemplate_prepend [of "strings_Join dns '', ''"]
      by (simp add: dhclientContent_def)
    then show "files (snd (SetupDhcp net networks errCh h)) ''/etc/dhcp/dhclient.conf'' =
              Some (butlast (ubuntuDHCPConfigTemplate []) @ [nl] @
                    ''prepend domain-name-servers '' @ strings_Join dns '', '' @ '';'' @ [nl])"
      using a SetupDhcp_file [of net networks errCh h] by simp
  qed
  have B: "snd (snd (fst (writeNetworkInterfaces net networks h))) = None \<longrightarrow>
            files (snd (writeNetworkInterfaces net networks h)) ''/etc/network/interfaces'' =
              Some (networkInterfacesTemplate
                      \<lparr>Networks = fst (fst (writeNetworkInterfaces net networks h)),
                       HasDNSNameServers = False, DNSServers = []\<rparr> @
                    ''dns-nameservers'' @ concat (map (\<lambda>d. '' '' @ d) dns))"
    using assms writeNetworkInterfaces_file [of net networks h]
      staticContent_dns_line
        [of net networks "fst (fst (writeNetworkInterfaces net networks h))"]
    by simp
  have C: "fst (writeResolvConf net networks h) = None \<longrightarrow>
            files (snd (writeResolvConf net networks h)) ''/etc/resolv.conf'' =
              Some (''# Generated by bosh-agent'' @ [nl] @
                    concat (map (\<lambda>d. ''nameserver '' @ d @ [nl]) dns))"
    using assms writeResolvConf_file [of net networks h]
    by (simp add: ubuntuResolvConfTemplate_def)
  show ?thesis by (intro conjI A B C)
qed

theorem dns_servers_rendered_in_given_order_witness:
  "DNS (fst (DefaultNetworkFor example_net [(''default'', static_network)] ''dns'')) =
     [''8.8.8.8'', ''8.8.4.4''] \<and>
   fst (SetupDhcp example_net [(''default'', static_network)] None idle) = None \<and>
   strings_Join [''8.8.8.8'', ''8.8.4.4''] '', '' = ''8.8.8.8, 8.8.4.4'' \<and>
   files (snd (SetupDhcp example_net [(''default'', static_network)] None idle))
     ''/etc/dhcp/dhclient.conf'' =
     Some (butlast (ubuntuDHCPConfigTemplate []) @ [nl] @
           ''prepend domain-name-servers 8.8.8.8, 8.8.4.4;'' @ [nl]) \<and>
   snd (snd (fst (writeNetworkInterfaces example_net [(''default'', static_network)] idle))) = None \<and>
   (\<exists>body. files (snd (writeNetworkInterfaces example_net [(''default'', static_network)] idle))
             ''/etc/network/interfaces'' =
           Some (body @ ''dns-nameservers 8.8.8.8 8.8.4.4'')) \<and>
   fst (writeResolvConf example_net [(''default'', static_network)] idle) = None \<and>
   files (snd (writeResolvConf example_net [(''default'', static_network)] idle))
     ''/etc/resolv.conf'' =
     Some (''# Generated by bosh-agent'' @ [nl] @
           ''nameserver 8.8.8.8'' @ [nl] @ ''nameserver 8.8.4.4'' @ [nl])"
proof -
  let ?nets = "[(''default'', static_network)]"
  have a: "DNS (fst (DefaultNetworkFor example_net ?nets ''dns'')) = [''8.8.8.8'', ''8.8.4.4'']"
    by (simp add: example_net_def firstDefaultFor_def static_network_def)
  have b: "fst (SetupDhcp example_net ?nets None idle) = None"
    by (simp add: SetupDhcp_error example_net_def)
  have j: "strings_Join [''8.8.8.8'', ''8.8.4.4''] '', '' = ''8.8.8.8, 8.8.4.4''"
    by simp
  have m1: "macAddressOf example_net ''/sys/class/net/eth1'' \<noteq> None"
    by (simp add: macAddressOf_def example_net_def filepath_Clean_def clean_step_def)
  have m2: "macAddressOf example_net ''/sys/class/net/lo'' \<noteq> None"
    by (simp add: macAddressOf_def example_net_def filepath_Clean_def clean_step_def)
  have d: "snd (detectMacAddresses example_net) = None"
    using m1 m2 by (simp add: detectMacAddresses_error) (simp add: example_net_def)
  have c: "snd (snd (fst (writeNetworkInterfaces example_net ?nets idle))) = None"
    using d by (simp add: writeNetworkInterfaces_error) (simp add: example_net_def static_network_def)
  have r: "fst (writeResolvConf example_net ?nets idle) = None"
    by (simp add: writeResolvConf_def Execute_def WriteFile_def Let_def case_prod_beta
                  example_net_def)
  note w = dns_servers_rendered_in_given_order [OF a, of None idle]
  have static: "\<exists>body. files (snd (writeNetworkInterfaces example_net ?nets idle))
                         ''/etc/network/interfaces'' =
                       Some (body @ ''dns-nameservers 8.8.8.8 8.8.4.4'')"
    using w c by simp
  show ?thesis
    using a b j c r w static by simp
qed

section \<open>Unconditional lines of the static interfaces file\<close>

lemma dhclient_without_dns_servers:
  assumes "DNS (fst (DefaultNetworkFor net networks ''dns'')) = []"
  shows "\<not> strings_Contains (dhclientContent net networks) ''prepend domain-name-servers''"
  using assms
  by (simp add: dhclientContent_def ubuntuDHCPConfigTemplate_def nl_def tab_def dquote_def)

lemma resolv_conf_without_dns_servers:
  assumes "DNS (fst (DefaultNetworkFor net networks ''dns'')) = []"
  shows "\<not> strings_Contains
             (ubuntuResolvConfTemplate
                \<lparr>dnsServers = DNS (fst (DefaultNetworkFor net networks ''dns''))\<rparr>)
             ''nameserver''"
  using assms
  by (simp add: ubuntuResolvConfTemplate_def nl_def)

lemma static_file_always_has_dns_line:
  "strings_Contains (staticContent net networks res) ''dns-nameservers''"
proof -
  have "staticContent net networks res =
          networkInterfacesTemplate \<lparr>Networks = res, HasDNSNameServers = False, DNSServers = []\<rparr> @
          ''dns-nameservers'' @
          concat (map (\<lambda>d. '' '' @ d) (DNS (fst (DefaultNetworkFor net networks ''dns''))))"
    by (rule staticContent_dns_line)
  then show ?thesis by (simp only: strings_Contains_middle)
qed

text \<open>
  Claim C1, on the code. With an empty DNS server list the DHCP client directive file
  has no \<open>prepend domain-name-servers\<close> directive and the resolver file has no
  \<open>nameserver\<close> line (the two lemmas above), but the static interfaces file still ends
  with a \<open>dns-nameservers\<close> line: \<open>writeNetworkInterfaces\<close> sets \<open>HasDNSNameServers\<close> to
  true whatever the list is. The static network without DNS servers on the example
  host shows it.
\<close>

theorem static_file_has_dns_line_without_dns_servers:
  "DNS (fst (DefaultNetworkFor example_net [(''default'', no_dns_network)] ''dns'')) = [] \<and>
   fst (SetupManualNetworking example_net [(''default'', no_dns_network)] None idle) = None \<and>
   files (snd (SetupManualNetworking example_net [(''default'', no_dns_network)] None idle))
     ''/etc/network/interfaces'' = Some no_dns_interfaces_file \<and>
   strings_Contains no_dns_interfaces_file ''dns-nameservers''"
proof -
  let ?nets = "[(''default'', no_dns_network)]"
  have det: "detectMacAddresses example_net =
               ([''aa:bb:cc:dd:ee:ff'' \<mapsto> ''eth1'', ''00:00:00:00:00:00'' \<mapsto> ''lo''], None)"
    by (simp add: detectMacAddresses_def example_net_def strings_Trim_def nl_def
                  filepath_Clean_def clean_step_def filepath_Base_def)
  have a: "DNS (fst (DefaultNetworkFor example_net ?nets ''dns'')) = []"
    by (simp add: example_net_def firstDefaultFor_def no_dns_network_def static_network_def)
  have calc: "CalculateNetworkAndBroadcast example_net ''10.0.0.5'' ''255.255.255.0'' =
                Inr (''10.0.0.0'', ''10.0.0.255'')"
    and conv: "fs_ConvergeFailure example_net ''/etc/network/interfaces'' = None"
    by (simp_all add: example_net_def)
  have b: "fst (SetupManualNetworking example_net ?nets None idle) = None"
    using det a calc conv
    by (simp add: SetupManualNetworking_def writeNetworkInterfaces_def Execute_def Let_def
                  case_prod_beta ConvergeFileContents_def no_dns_network_def static_network_def
                  map_index_def)
  have c: "files (snd (SetupManualNetworking example_net ?nets None idle))
             ''/etc/network/interfaces'' = Some no_dns_interfaces_file"
    using det a calc conv
    by (simp add: SetupManualNetworking_files writeNetworkInterfaces_def Execute_def Let_def
                  case_prod_beta ConvergeFileContents_def no_dns_network_def static_network_def
                  map_index_def logger_def idle_def no_dns_interfaces_file_def
                  networkInterfacesTemplate_def networkBlock_def)
  have d: "strings_Contains no_dns_interfaces_file ''dns-nameservers''"
    by (simp add: no_dns_interfaces_file_def nl_def)
  show ?thesis by (intro conjI a b c d)
qed

lemma resolved_network_has_gateway_line:
  assumes "resolves net macAddresses entry n"
  shows "strings_Contains (networkBlock n) (''    gateway '' @ Gateway (snd entry))"
proof -
  have "networkBlock n =
          ([nl] @ staticStanza (Interface n) (IP (Network n)) (NetworkIP n) (Netmask (Network n))
                    (Broadcast n)) @
          (''    gateway '' @ Gateway (snd entry)) @ []"
    using assms by (simp add: networkBlock_staticStanza resolves_def)
  then show ?thesis by (simp only: strings_Contains_middle)
qed

text \<open>
  Claim C2, on the code. Every static block has a \<open>gateway\<close> line, also the block of a
  network that declares no gateway: \<open>writeNetworkInterfaces\<close> sets \<open>HasDefaultGateway\<close>
  to true for every network, so the line is rendered with an empty address. The static
  network without a gateway on the example host shows it.
\<close>

theorem static_block_has_gateway_line_without_gateway:
  "Gateway no_gateway_network = [] \<and>
   fst (SetupManualNetworking example_net [(''default'', no_gateway_network)] None idle) = None \<and>
   files (snd (SetupManualNetworking example_net [(''default'', no_gateway_network)] None idle))
     ''/etc/network/interfaces'' = Some no_gateway_interfaces_file \<and>
   strings_Contains no_gateway_interfaces_file (''    gateway '' @ [nl])"
proof -
  let ?nets = "[(''default'', no_gateway_network)]"
  have det: "detectMacAddresses example_net =
               ([''aa:bb:cc:dd:ee:ff'' \<mapsto> ''eth1'', ''00:00:00:00:00:00'' \<mapsto> ''lo''], None)"
    by (simp add: detectMacAddresses_def example_net_def strings_Trim_def nl_def
                  filepath_Clean_def clean_step_def filepath_Base_def)
  have a: "Gateway no_gateway_network = []"
    by (simp add: no_gateway_network_def static_network_def)
  have dns: "DNS (fst (DefaultNetworkFor example_net ?nets ''dns'')) = [''8.8.8.8'', ''8.8.4.4'']"
    by (simp add: example_net_def firstDefaultFor_def no_gateway_network_def static_network_def)
  have calc: "CalculateNetworkAndBroadcast example_net ''10.0.0.5'' ''255.255.255.0'' =
                Inr (''10.0.0.0'', ''10.0.0.255'')"
    and conv: "fs_ConvergeFailure example_net ''/etc/network/interfaces'' = None"
    by (simp_all add: example_net_def)
  have b: "fst (SetupManualNetworking example_net ?nets None idle) = None"
    using det dns calc conv
    by (simp add: SetupManualNetworking_def writeNetworkInterfaces_def Execute_def Let_def
                  case_prod_beta ConvergeFileContents_def no_gateway_network_def static_network_def
                  map_index_def)
  have c: "files (snd (SetupManualNetworking example_net ?nets None idle))
             ''/etc/network/interfaces'' = Some no_gateway_interfaces_file"
    using det dns calc conv
    by (simp add: SetupManualNetworking_files writeNetworkInterfaces_def Execute_def Let_def
                  case_prod_beta ConvergeFileContents_def no_gateway_network_def static_network_def
                  map_index_def logger_def idle_def no_gateway_interfaces_file_def
                  networkInterfacesTemplate_def networkBlock_def)
  have d: "strings_Contains no_gateway_interfaces_file (''    gateway '' @ [nl])"
    by (simp add: no_gateway_interfaces_file_def nl_def)
  show ?thesis by (intro conjI a b c d)
qed

end
